theory Spec2Isabelle
  imports Complex_Main "HOL-Library.Word"
begin

section \<open>Data model\<close>

text \<open>
  Python objects are modelled by reference: a WebSocket and a Participant are identified by
  an address, so that \<open>p is exclude\<close> is equality of addresses. The fields of a
  Participant live in a store (\<open>objs\<close>), because the handler mutates \<open>language_mode\<close>
  of the object it got from the manager.
  The registry is typed \<open>Dict[str, Set[Participant]]\<close>. A Python set holds objects that
  have a hash, and a Participant has none: the class is declared \<open>@dataclass\<close> with the
  default \<open>eq=True\<close> and without \<open>frozen\<close> or \<open>unsafe_hash\<close>, for which it gets
  \<open>__hash__ = None\<close>. So \<open>set.add\<close> and \<open>set.discard\<close> of a Participant raise
  TypeError before they look at the set, and the model follows that (\<open>hash_participant\<close>).
  Utterance text is a Python \<open>str\<close>, a sequence of Unicode code points; identifiers that
  are only compared (room codes, user names, language codes) are \<open>string\<close>s.
\<close>

type_synonym ws = nat
type_synonym pref = nat
type_synonym utext = "nat list"
type_synonym bytes = "8 word list"
type_synonym roster = "(int \<times> string \<times> string) list"

text \<open>manager.py, class Participant (a dataclass).\<close>

record participant =
  websocket :: ws
  user_id :: int
  username :: string
  language_mode :: string

text \<open>
  Exceptions. \<open>WebSocketDisconnect\<close> and \<open>Exception\<close> are caught by the handler's two
  \<open>except\<close> clauses; \<open>BaseException\<close> stands for what \<open>except Exception\<close> lets through
  (task cancellation).
\<close>

datatype exn = WebSocketDisconnect | Exception string | BaseException string

text \<open>The outbound JSON events, one constructor for each value of the \<open>type\<close> key.\<close>

datatype payload =
    ConnectionEstablished int string string string roster
  | UserJoined int string string roster
  | UserLeft (left_user_id: int) (left_username: string) (left_participants: roster)
  | TranslationResult (tr_user_id: int) (tr_username: string) (original_text: utext)
      (translated_text: utext) (source_language: string) (target_language: string)
      (audio_url: string) (confidence: real)
  | ModeChanged string
  | Pong

text \<open>db/models.py, MessageLog, as \<open>_save_message\<close> constructs it.\<close>

datatype message_log = MessageLog int int utext utext string string string real

datatype level = INFO | WARNING | ERROR

text \<open>
  Every call that leaves the process is recorded in a trace, in the order the code makes it:
  transport calls on a socket, calls to the three language services, the database write
  and the log lines.
\<close>

datatype event =
    Accepted ws
  | Closed ws nat string
  | Delivered ws payload
  | SendFailed ws payload
  | Transcribed bytes
  | Translated string string utext
  | Synthesized utext string
  | Committed message_log
  | CommitFailed message_log
  | Log level string

text \<open>
  The state shared by all sessions: the registry \<open>ConnectionManager._rooms\<close> (each set of
  participants as a duplicate-free list, in the order the set is iterated), the store of
  Participant objects with its allocation counter, the sockets whose \<open>send_json\<close> raises,
  the trace, and the number of uuids drawn so far.
\<close>

record world =
  rooms :: "string \<Rightarrow> pref list option"
  objs :: "pref \<Rightarrow> participant"
  next_ref :: pref
  broken :: "ws \<Rightarrow> bool"
  trace :: "event list"
  uuid_draws :: nat

definition emit :: "event \<Rightarrow> world \<Rightarrow> world" where
  "emit e w = w\<lparr>trace := trace w @ [e]\<rparr>"

section \<open>websocket/manager.py: ConnectionManager\<close>

text \<open>
  \<open>hash(participant)\<close>, the first thing \<open>set.add\<close> and \<open>set.discard\<close> do with their
  argument. For a Participant it raises TypeError (unhashable type).
\<close>

definition hash_participant :: "pref \<Rightarrow> exn + unit" where
  "hash_participant p = Inl (Exception ''TypeError'')"

text \<open>The two set operations on the list representation, past the hash.\<close>

definition set_add :: "pref \<Rightarrow> pref list \<Rightarrow> pref list" where
  "set_add p ps = (if p \<in> set ps then ps else ps @ [p])"

definition set_discard :: "pref \<Rightarrow> pref list \<Rightarrow> pref list" where
  "set_discard p ps = removeAll p ps"

text \<open>The subscript \<open>self._rooms[room_code]\<close>, which raises KeyError on a missing key.\<close>

definition room_get :: "world \<Rightarrow> string \<Rightarrow> exn + pref list" where
  "room_get w room_code =
     (case rooms w room_code of None \<Rightarrow> Inl (Exception ''KeyError'') | Some ps \<Rightarrow> Inr ps)"

definition room_put :: "world \<Rightarrow> string \<Rightarrow> pref list \<Rightarrow> world" where
  "room_put w room_code ps = w\<lparr>rooms := (rooms w)(room_code \<mapsto> ps)\<rparr>"

text \<open>\<open>websocket.send_json(data)\<close>: raises on a broken transport, delivers otherwise.\<close>

definition send_json :: "world \<Rightarrow> ws \<Rightarrow> payload \<Rightarrow> (exn + unit) \<times> world" where
  "send_json w s data =
     (if broken w s then (Inl (Exception ''send failed''), emit (SendFailed s data) w)
      else (Inr (), emit (Delivered s data) w))"

text \<open>
  \<open>ConnectionManager.disconnect\<close>: when the room has an entry, discard the participant
  from its set and delete the entry when the set has become empty; then log. The discard
  hashes the participant, so with an entry the call raises before the set is touched and
  before the log line.
\<close>

definition disconnect :: "world \<Rightarrow> string \<Rightarrow> pref \<Rightarrow> (exn + unit) \<times> world" where
  "disconnect w room_code p =
     (if rooms w room_code \<noteq> None then
        (case room_get w room_code of
           Inl e \<Rightarrow> (Inl e, w)
         | Inr ps \<Rightarrow>
            (case hash_participant p of
               Inl e \<Rightarrow> (Inl e, w)
             | Inr h \<Rightarrow>
                (let w1 = room_put w room_code (set_discard p ps) in
                 case room_get w1 room_code of
                   Inl e \<Rightarrow> (Inl e, w1)
                 | Inr ps1 \<Rightarrow>
                    (if ps1 = [] then
                       (Inr (), emit (Log INFO ''WS disconnected'')
                          (w1\<lparr>rooms := (rooms w1)(room_code := None)\<rparr>))
                     else (Inr (), emit (Log INFO ''WS disconnected'') w1)))))
      else (Inr (), emit (Log INFO ''WS disconnected'') w))"

text \<open>
  \<open>ConnectionManager.broadcast_json\<close>. The first loop sends to every member of the room
  but \<open>exclude\<close>, collecting the members whose send raised; the second loop discards them.
  What the second loop discards was read out of the set, so it is an object that has a hash.
\<close>

fun broadcast_loop ::
  "world \<Rightarrow> payload \<Rightarrow> pref option \<Rightarrow> pref list \<Rightarrow> pref list \<Rightarrow> world \<times> pref list" where
  "broadcast_loop w data exclude [] disconnected = (w, disconnected)"
| "broadcast_loop w data exclude (p # ps) disconnected =
     (if Some p = exclude then broadcast_loop w data exclude ps disconnected
      else (case send_json w (websocket (objs w p)) data of
              (Inl e, w1) \<Rightarrow> broadcast_loop w1 data exclude ps (disconnected @ [p])
            | (Inr u, w1) \<Rightarrow> broadcast_loop w1 data exclude ps disconnected))"

fun discard_all :: "world \<Rightarrow> string \<Rightarrow> pref list \<Rightarrow> (exn + unit) \<times> world" where
  "discard_all w room_code [] = (Inr (), w)"
| "discard_all w room_code (p # ps) =
     (case room_get w room_code of
        Inl e \<Rightarrow> (Inl e, w)
      | Inr qs \<Rightarrow> discard_all (room_put w room_code (set_discard p qs)) room_code ps)"

definition broadcast_json ::
  "world \<Rightarrow> string \<Rightarrow> payload \<Rightarrow> pref option \<Rightarrow> (exn + unit) \<times> world" where
  "broadcast_json w room_code data exclude =
     (if rooms w room_code = None then (Inr (), w)
      else (case room_get w room_code of
              Inl e \<Rightarrow> (Inl e, w)
            | Inr ps \<Rightarrow>
               (case broadcast_loop w data exclude ps [] of
                  (w1, disconnected) \<Rightarrow> discard_all w1 room_code disconnected)))"

text \<open>\<open>ConnectionManager.send_to_participant\<close>: a failed send is logged, not raised.\<close>

definition send_to_participant :: "world \<Rightarrow> pref \<Rightarrow> payload \<Rightarrow> world" where
  "send_to_participant w p data =
     (case send_json w (websocket (objs w p)) data of
        (Inl e, w1) \<Rightarrow> emit (Log WARNING ''Failed to send'') w1
      | (Inr u, w1) \<Rightarrow> w1)"

text \<open>\<open>ConnectionManager.get_participant_list\<close>: one entry for each member of the room.\<close>

definition roster_entry :: "world \<Rightarrow> pref \<Rightarrow> int \<times> string \<times> string" where
  "roster_entry w p = (user_id (objs w p), username (objs w p), language_mode (objs w p))"

definition get_participant_list :: "world \<Rightarrow> string \<Rightarrow> roster" where
  "get_participant_list w room_code =
     (case rooms w room_code of
        None \<Rightarrow> []
      | Some ps \<Rightarrow> map (roster_entry w) ps)"

text \<open>
  \<open>ConnectionManager.connect\<close>: accept, allocate the Participant, create the room's set on
  first join, add, log, and announce the join to the rest of the room. The add hashes the
  new Participant: the call raises there, with the socket accepted and the empty set of a
  new room stored.
\<close>

definition connect ::
  "world \<Rightarrow> ws \<Rightarrow> string \<Rightarrow> int \<Rightarrow> string \<Rightarrow> string \<Rightarrow> (exn + pref) \<times> world" where
  "connect w s room_code uid uname mode =
     (let w1 = emit (Accepted s) w;
          p = next_ref w1;
          w2 = w1\<lparr>objs := (objs w1)
                 (p := \<lparr>websocket = s, user_id = uid, username = uname, language_mode = mode\<rparr>),
               next_ref := Suc p\<rparr>;
          w3 = (if rooms w2 room_code = None then room_put w2 room_code [] else w2)
      in case room_get w3 room_code of
           Inl e \<Rightarrow> (Inl e, w3)
         | Inr ps \<Rightarrow>
            (case hash_participant p of
               Inl e \<Rightarrow> (Inl e, w3)
             | Inr h \<Rightarrow>
                (let w4 = emit (Log INFO ''WS connected'')
                            (room_put w3 room_code (set_add p ps))
                 in case broadcast_json w4 room_code
                           (UserJoined uid uname mode (get_participant_list w4 room_code))
                           (Some p) of
                      (Inl e, w5) \<Rightarrow> (Inl e, w5)
                    | (Inr u, w5) \<Rightarrow> (Inr p, w5))))"

text \<open>The session set of a room as the registry's callers see it (empty for an absent room).\<close>

definition sessions :: "world \<Rightarrow> string \<Rightarrow> pref list" where
  "sessions w room_code = (case rooms w room_code of None \<Rightarrow> [] | Some ps \<Rightarrow> ps)"

section \<open>External collaborators\<close>

text \<open>
  What the core calls but does not implement is a parameter of the model: the token decoder
  of \<open>app.core.security\<close>, the database queries, the Whisper model, the Google
  translator, \<open>langdetect.detect\<close>, the Edge-TTS writer, the uuid source and the JSON
  parser. A collaborator that can raise returns an outcome that says so. Whisper's outcome
  is None when anything in the \<open>try\<close> of \<open>transcribe_audio\<close> raises, and else the
  \<open>text\<close> and \<open>language\<close> entries of its result, each of which may be missing,
  with the confidence that the wrapper computes from the segments in floating point and
  that the model takes as given.
\<close>

text \<open>The \<open>sub\<close> claim of a token, by what \<open>int(user_id)\<close> makes of it.\<close>

datatype claim = ClaimInt int | ClaimBad

text \<open>\<open>GoogleTranslator.translate\<close>: raises, returns None, or returns text.\<close>

datatype tr_outcome = TrRaises | TrNone | TrText utext

text \<open>\<open>json.loads\<close> on a control frame, as far as the handler looks into the result.\<close>

datatype json_val = JString string | JOther

datatype json_doc = JSONDecodeError | JNotObject | JObject "string \<Rightarrow> json_val option"

text \<open>db/models.py, User: the two columns the handler reads.\<close>

record user =
  u_id :: int
  u_username :: string

record env =
  decode_access_token :: "string \<Rightarrow> (string \<Rightarrow> claim option) option"
  db_user :: "int \<Rightarrow> user option"
  db_active_room :: "string \<Rightarrow> int option"
  db_participant_mode :: "int \<Rightarrow> string \<Rightarrow> string option"
  db_room :: "string \<Rightarrow> int option"
  db_commit :: "message_log \<Rightarrow> bool"
  whisper :: "bytes \<Rightarrow> (utext option \<times> string option \<times> real) option"
  google_translate :: "string \<Rightarrow> string \<Rightarrow> utext \<Rightarrow> tr_outcome"
  detect :: "utext \<Rightarrow> string option"
  edge_save :: "utext \<Rightarrow> string \<Rightarrow> string \<Rightarrow> bool"
  uuid4_hex :: "nat \<Rightarrow> string"
  AUDIO_DIR :: string
  json_loads :: "string \<Rightarrow> json_doc"

section \<open>Python strings\<close>

text \<open>The code points that \<open>str.strip()\<close> removes (\<open>str.isspace\<close>).\<close>

definition isspace :: "nat \<Rightarrow> bool" where
  "isspace c \<longleftrightarrow>
     (9 \<le> c \<and> c \<le> 13) \<or> (28 \<le> c \<and> c \<le> 32) \<or> c = 133 \<or> c = 160 \<or> c = 5760 \<or>
     (8192 \<le> c \<and> c \<le> 8202) \<or> c = 8232 \<or> c = 8233 \<or> c = 8239 \<or> c = 8287 \<or> c = 12288"

definition strip :: "utext \<Rightarrow> utext" where
  "strip s = rev (dropWhile isspace (rev (dropWhile isspace s)))"

section \<open>services/transcription.py\<close>

text \<open>
  \<open>transcribe_audio\<close> never raises: the stripped text, the language (\<open>en\<close> when the
  result has none) and the confidence, or the empty transcription when Whisper failed.
\<close>

definition transcribe_audio :: "env \<Rightarrow> bytes \<Rightarrow> utext \<times> string \<times> real" where
  "transcribe_audio env audio_bytes =
     (case whisper env audio_bytes of
        None \<Rightarrow> ([], ''en'', 0)
      | Some (text, language, conf) \<Rightarrow>
          (strip (case text of None \<Rightarrow> [] | Some t \<Rightarrow> t),
           (case language of None \<Rightarrow> ''en'' | Some l \<Rightarrow> l),
           conf))"

section \<open>services/translation.py\<close>

definition detect_language :: "env \<Rightarrow> utext \<Rightarrow> string" where
  "detect_language env text =
     (case detect env text of
        None \<Rightarrow> ''en''
      | Some lang \<Rightarrow> (if lang \<in> set [''hi'', ''mr'', ''ne'', ''sa''] then ''hi'' else ''en''))"

definition translate_text ::
  "env \<Rightarrow> world \<Rightarrow> utext \<Rightarrow> string \<Rightarrow> string \<Rightarrow> (utext \<times> string \<times> string) \<times> world" where
  "translate_text env w text source_lang target_lang =
     (if text = [] \<or> strip text = [] then (([], source_lang, target_lang), w)
      else
        (let src = (if source_lang = ''auto'' then detect_language env text else source_lang);
             tgt = (if src = target_lang then (if src = ''hi'' then ''en'' else ''hi'')
                    else target_lang);
             translated =
               (if src = ''hi'' \<and> tgt = ''en'' then google_translate env ''hi'' ''en'' text
                else if src = ''en'' \<and> tgt = ''hi'' then google_translate env ''en'' ''hi'' text
                else google_translate env src tgt text);
             w1 = emit (Translated src tgt text) w
         in case translated of
              TrRaises \<Rightarrow> ((text, src, tgt), emit (Log ERROR ''Translation error'') w1)
            | TrNone \<Rightarrow> ((text, src, tgt), emit (Log INFO ''Translation'') w1)
            | TrText t \<Rightarrow> ((t, src, tgt), emit (Log INFO ''Translation'') w1)))"

section \<open>services/tts.py\<close>

definition VOICES :: "string \<Rightarrow> string option" where
  "VOICES = [''en'' \<mapsto> ''en-US-AriaNeural'', ''hi'' \<mapsto> ''hi-IN-SwaraNeural'']"

definition synthesize_speech :: "env \<Rightarrow> world \<Rightarrow> utext \<Rightarrow> string \<Rightarrow> string \<times> world" where
  "synthesize_speech env w text language =
     (if text = [] \<or> strip text = [] then ([], w)
      else
        (let voice = (case VOICES language of None \<Rightarrow> ''en-US-AriaNeural'' | Some v \<Rightarrow> v);
             filename = uuid4_hex env (uuid_draws w) @ ''.mp3'';
             filepath = AUDIO_DIR env @ ''/'' @ filename;
             w1 = emit (Synthesized text voice) (w\<lparr>uuid_draws := Suc (uuid_draws w)\<rparr>)
         in if edge_save env text voice filepath
            then (''/static/audio/'' @ filename, emit (Log INFO ''TTS generated'') w1)
            else ([], emit (Log ERROR ''TTS synthesis failed'') w1)))"

section \<open>websocket/handler.py\<close>

text \<open>\<open>_authenticate_ws\<close>: the user of a token, None, or the ValueError of \<open>int\<close>.\<close>

definition authenticate_ws :: "env \<Rightarrow> string \<Rightarrow> exn + user option" where
  "authenticate_ws env token =
     (case decode_access_token env token of
        None \<Rightarrow> Inr None
      | Some payload \<Rightarrow>
         (case payload ''sub'' of
            None \<Rightarrow> Inr None
          | Some ClaimBad \<Rightarrow> Inl (Exception ''ValueError'')
          | Some (ClaimInt n) \<Rightarrow> Inr (db_user env n)))"

definition get_participant_mode :: "env \<Rightarrow> int \<Rightarrow> string \<Rightarrow> string" where
  "get_participant_mode env uid room_code =
     (case db_participant_mode env uid room_code of None \<Rightarrow> ''hi_to_en'' | Some m \<Rightarrow> m)"

text \<open>
  \<open>_save_message\<close>: nothing is written for an unknown room; the commit of the new row
  may raise, and nothing in this function catches it.
\<close>

definition save_message ::
  "env \<Rightarrow> world \<Rightarrow> string \<Rightarrow> int \<Rightarrow> utext \<Rightarrow> utext \<Rightarrow> string \<Rightarrow> string \<Rightarrow> string \<Rightarrow> real \<Rightarrow>
   (exn + unit) \<times> world" where
  "save_message env w room_code uid original translated source_lang target_lang url conf =
     (case db_room env room_code of
        None \<Rightarrow> (Inr (), w)
      | Some rid \<Rightarrow>
         (let msg = MessageLog rid uid original translated source_lang target_lang url conf
          in if db_commit env msg then (Inr (), emit (Committed msg) w)
             else (Inl (Exception ''commit failed''), emit (CommitFailed msg) w)))"

text \<open>
  One unit returned by \<open>websocket.receive()\<close>: a dict that may hold the keys \<open>bytes\<close>
  and \<open>text\<close>. The local variables of \<open>websocket_meeting\<close> that the loop reads and
  writes are the session. The model is sequential: one iteration of a session's loop is one
  step on the shared world, and the steps of different sessions interleave between
  iterations, not inside one.
\<close>

record message =
  msg_bytes :: "bytes option"
  msg_text :: "string option"

datatype recv = Received message | ReceiveRaised exn

record session =
  s_websocket :: ws
  s_room_code :: string
  s_user :: user
  s_participant :: pref
  s_language_mode :: string

text \<open>Step 2 of the binary branch: languages from the mode, source overridden when confident.\<close>

definition resolve_languages :: "string \<Rightarrow> string \<Rightarrow> real \<Rightarrow> string \<times> string" where
  "resolve_languages mode detected_lang conf =
     (let (source_lang, target_lang) =
            (if mode = ''hi_to_en'' then (''hi'', ''en'') else (''en'', ''hi''))
      in (if conf > 0.5 then detected_lang else source_lang, target_lang))"

text \<open>Steps 3 and 4 of the binary branch: translate, then synthesize the translation.\<close>

definition translate_and_synthesize ::
  "env \<Rightarrow> world \<Rightarrow> utext \<Rightarrow> string \<Rightarrow> string \<Rightarrow> (utext \<times> string \<times> string \<times> string) \<times> world" where
  "translate_and_synthesize env w original source_lang target_lang =
     (case translate_text env w original source_lang target_lang of
        ((translated, src, tgt), w2) \<Rightarrow>
         (case synthesize_speech env w2 translated tgt of
            (url, w3) \<Rightarrow> ((translated, src, tgt, url), w3)))"

text \<open>The dict \<open>result_data\<close> of step 5.\<close>

definition result_data ::
  "session \<Rightarrow> utext \<Rightarrow> utext \<Rightarrow> string \<Rightarrow> string \<Rightarrow> string \<Rightarrow> real \<Rightarrow> payload" where
  "result_data s original translated src tgt url conf =
     TranslationResult (u_id (s_user s)) (u_username (s_user s))
       original translated src tgt url conf"

text \<open>
  Steps 5 and 6: broadcast to the room with nobody excluded, send to the speaker, save.
  The save is awaited inside the loop's \<open>try\<close>; what it raises leaves the loop.
\<close>

definition deliver_and_save ::
  "env \<Rightarrow> session \<Rightarrow> world \<Rightarrow> utext \<Rightarrow> utext \<Rightarrow> string \<Rightarrow> string \<Rightarrow> string \<Rightarrow> real \<Rightarrow>
   (exn + session) \<times> world" where
  "deliver_and_save env s w original translated src tgt url conf =
     (case broadcast_json w (s_room_code s)
             (result_data s original translated src tgt url conf) None of
        (Inl e, w4) \<Rightarrow> (Inl e, w4)
      | (Inr u, w4) \<Rightarrow>
         (let w5 = send_to_participant w4 (s_participant s)
                     (result_data s original translated src tgt url conf)
          in case save_message env w5 (s_room_code s) (u_id (s_user s))
                    original translated src tgt url conf of
               (Inl e, w6) \<Rightarrow> (Inl e, w6)
             | (Inr u, w6) \<Rightarrow> (Inr s, w6)))"

text \<open>The binary branch of the loop body: one audio chunk through the pipeline.\<close>

definition handle_bytes :: "env \<Rightarrow> session \<Rightarrow> world \<Rightarrow> bytes \<Rightarrow> (exn + session) \<times> world" where
  "handle_bytes env s w audio_bytes =
     (if length audio_bytes < 100 then (Inr s, w)
      else
        (case transcribe_audio env audio_bytes of
           (original, detected_lang, conf) \<Rightarrow>
            (let w1 = emit (Transcribed audio_bytes) w in
             if strip original = [] then (Inr s, w1)
             else
               (case resolve_languages (s_language_mode s) detected_lang conf of
                  (source_lang, target_lang) \<Rightarrow>
                   (case translate_and_synthesize env w1 original source_lang target_lang of
                      ((translated, src, tgt, url), w3) \<Rightarrow>
                        deliver_and_save env s w3 original translated src tgt url conf)))))"

text \<open>
  The text branch: a control message. A frame that is JSON but not an object has no
  \<open>get\<close>, and the AttributeError leaves the loop.
\<close>

definition handle_text :: "env \<Rightarrow> session \<Rightarrow> world \<Rightarrow> string \<Rightarrow> (exn + session) \<times> world" where
  "handle_text env s w text =
     (case json_loads env text of
        JSONDecodeError \<Rightarrow> (Inr s, w)
      | JNotObject \<Rightarrow> (Inl (Exception ''AttributeError''), w)
      | JObject data \<Rightarrow>
         (let msg_type = (case data ''type'' of None \<Rightarrow> JString [] | Some v \<Rightarrow> v) in
          if msg_type = JString ''change_mode'' then
            (case (case data ''mode'' of None \<Rightarrow> JString (s_language_mode s) | Some v \<Rightarrow> v) of
               JOther \<Rightarrow> (Inr s, w)
             | JString new_mode \<Rightarrow>
                (if new_mode \<in> set [''hi_to_en'', ''en_to_hi''] then
                   (let p = s_participant s;
                        w1 = w\<lparr>objs := (objs w)(p := (objs w p)\<lparr>language_mode := new_mode\<rparr>)\<rparr>
                    in (Inr (s\<lparr>s_language_mode := new_mode\<rparr>),
                        send_to_participant w1 p (ModeChanged new_mode)))
                 else (Inr s, w)))
          else if msg_type = JString ''ping'' then
            (Inr s, send_to_participant w (s_participant s) Pong)
          else (Inr s, w)))"

definition handle_message :: "env \<Rightarrow> session \<Rightarrow> world \<Rightarrow> message \<Rightarrow> (exn + session) \<times> world" where
  "handle_message env s w m =
     (case msg_bytes m of
        Some audio_bytes \<Rightarrow> handle_bytes env s w audio_bytes
      | None \<Rightarrow>
         (case msg_text m of
            Some text \<Rightarrow> handle_text env s w text
          | None \<Rightarrow> (Inr s, w)))"

text \<open>
  The \<open>while True\<close> loop over what \<open>receive\<close> returns or raises. The loop ends only by
  an exception; when the list of received units is used up the loop is still waiting in
  \<open>receive\<close>, which is the result None.
\<close>

fun receive_loop ::
  "env \<Rightarrow> session \<Rightarrow> world \<Rightarrow> recv list \<Rightarrow> (exn option \<times> session) \<times> world" where
  "receive_loop env s w [] = ((None, s), w)"
| "receive_loop env s w (ReceiveRaised e # rs) = ((Some e, s), w)"
| "receive_loop env s w (Received m # rs) =
     (case handle_message env s w m of
        (Inl e, w1) \<Rightarrow> ((Some e, s), w1)
      | (Inr s1, w1) \<Rightarrow> receive_loop env s1 w1 rs)"

text \<open>
  The \<open>finally\<close> block: remove the session, then tell the room. What \<open>disconnect\<close>
  raises leaves the block before the broadcast.
\<close>

definition teardown :: "session \<Rightarrow> world \<Rightarrow> (exn + unit) \<times> world" where
  "teardown s w =
     (case disconnect w (s_room_code s) (s_participant s) of
        (Inl e, w1) \<Rightarrow> (Inl e, w1)
      | (Inr u, w1) \<Rightarrow>
          broadcast_json w1 (s_room_code s)
            (UserLeft (u_id (s_user s)) (u_username (s_user s))
               (get_participant_list w1 (s_room_code s)))
            None)"

text \<open>
  How a call of \<open>websocket_meeting\<close> stands: closed with a code before joining, still in
  the loop, returned after the teardown, or left by an exception.
\<close>

datatype outcome = Rejected nat | Running session | Finished | Failed exn

text \<open>The two \<open>except\<close> clauses: each logs; what is no \<open>Exception\<close> passes by both.\<close>

definition logged_exit :: "exn \<Rightarrow> world \<Rightarrow> world" where
  "logged_exit e w =
     (case e of
        WebSocketDisconnect \<Rightarrow> emit (Log INFO ''WS disconnected'') w
      | Exception x \<Rightarrow> emit (Log ERROR ''WS error'') w
      | BaseException x \<Rightarrow> w)"

text \<open>The \<open>try\<close> statement around the loop, with its two handlers and the teardown.\<close>

definition run_session :: "env \<Rightarrow> session \<Rightarrow> world \<Rightarrow> recv list \<Rightarrow> outcome \<times> world" where
  "run_session env s w script =
     (case receive_loop env s w script of
        ((None, s1), w1) \<Rightarrow> (Running s1, w1)
      | ((Some e, s1), w1) \<Rightarrow>
         (case teardown s1 (logged_exit e w1) of
            (Inl e1, w3) \<Rightarrow> (Failed e1, w3)
          | (Inr u, w3) \<Rightarrow>
             (case e of BaseException x \<Rightarrow> (Failed e, w3) | _ \<Rightarrow> (Finished, w3))))"

text \<open>
  \<open>websocket_meeting\<close>. The call of \<open>manager.connect\<close> stands before the \<open>try\<close>:
  what it raises leaves the handler, with no \<open>except\<close> clause and no teardown.
\<close>

definition websocket_meeting ::
  "env \<Rightarrow> world \<Rightarrow> ws \<Rightarrow> string \<Rightarrow> string \<Rightarrow> recv list \<Rightarrow> outcome \<times> world" where
  "websocket_meeting env w sock room_code token script =
     (case authenticate_ws env token of
        Inl e \<Rightarrow> (Failed e, w)
      | Inr None \<Rightarrow> (Rejected 4001, emit (Closed sock 4001 ''Authentication failed'') w)
      | Inr (Some usr) \<Rightarrow>
         (case db_active_room env room_code of
            None \<Rightarrow> (Rejected 4002, emit (Closed sock 4002 ''Room not found or ended'') w)
          | Some rid \<Rightarrow>
             (let mode = get_participant_mode env (u_id usr) room_code in
              case connect w sock room_code (u_id usr) (u_username usr) mode of
                (Inl e, w1) \<Rightarrow> (Failed e, w1)
              | (Inr p, w1) \<Rightarrow>
                 (let w2 = send_to_participant w1 p
                             (ConnectionEstablished (u_id usr) (u_username usr) room_code mode
                                (get_participant_list w1 room_code))
                  in run_session env
                       \<lparr>s_websocket = sock, s_room_code = room_code, s_user = usr,
                        s_participant = p, s_language_mode = mode\<rparr>
                       w2 script))))"

section \<open>Reading the trace\<close>

text \<open>
  The event that a send of \<open>data\<close> to participant \<open>p\<close> leaves in the trace, the send
  events among others, and the send events that a step from \<open>w\<close> to \<open>w'\<close> has added.
\<close>

definition attempt :: "world \<Rightarrow> payload \<Rightarrow> pref \<Rightarrow> event" where
  "attempt w data p =
     (if broken w (websocket (objs w p)) then SendFailed (websocket (objs w p)) data
      else Delivered (websocket (objs w p)) data)"

fun is_send :: "event \<Rightarrow> bool" where
  "is_send (Delivered s d) = True"
| "is_send (SendFailed s d) = True"
| "is_send e = False"

definition events_since :: "world \<Rightarrow> world \<Rightarrow> event list" where
  "events_since w w' = drop (length (trace w)) (trace w')"

definition sends_since :: "world \<Rightarrow> world \<Rightarrow> event list" where
  "sends_since w w' = filter is_send (events_since w w')"

text \<open>
  A step is quiet when it leaves the registry, the store and the sockets as they were and
  adds no send to the trace.
\<close>

definition quiet :: "world \<Rightarrow> world \<Rightarrow> bool" where
  "quiet w w' \<longleftrightarrow>
     rooms w' = rooms w \<and> objs w' = objs w \<and> broken w' = broken w \<and>
     next_ref w' = next_ref w \<and> take (length (trace w)) (trace w') = trace w \<and>
     sends_since w w' = []"

text \<open>What a broadcast leaves of a room: the excluded member and the members that took the send.\<close>

definition pruned :: "world \<Rightarrow> pref option \<Rightarrow> pref list \<Rightarrow> pref list" where
  "pruned w ex ps = filter (\<lambda>p. Some p = ex \<or> \<not> broken w (websocket (objs w p))) ps"

text \<open>
  The events of steps 5 and 6 after the sends of the broadcast: the direct send, its
  warning when it failed, and the database write.
\<close>

definition after_broadcast ::
  "env \<Rightarrow> session \<Rightarrow> world \<Rightarrow> utext \<Rightarrow> utext \<Rightarrow> string \<Rightarrow> string \<Rightarrow> string \<Rightarrow> real \<Rightarrow> event list" where
  "after_broadcast env s w original translated src tgt url conf =
     attempt w (result_data s original translated src tgt url conf) (s_participant s) #
     (if broken w (websocket (objs w (s_participant s)))
      then [Log WARNING ''Failed to send''] else []) @
     (case db_room env (s_room_code s) of
        None \<Rightarrow> []
      | Some rid \<Rightarrow>
         [if db_commit env (MessageLog rid (u_id (s_user s)) original translated src tgt url conf)
          then Committed (MessageLog rid (u_id (s_user s)) original translated src tgt url conf)
          else CommitFailed (MessageLog rid (u_id (s_user s)) original translated src tgt url conf)])"



section \<open>Example states\<close>

text \<open>
  A room \<open>ABCD-1234\<close> whose set is the given list of participants; participant \<open>p\<close> has
  socket \<open>10 + p\<close> and user id \<open>p\<close>; the sockets listed as dead raise on send. With the
  empty list the room is as a call of \<open>connect\<close> leaves it. \<open>initial_world\<close> is the
  registry as \<open>ConnectionManager()\<close> builds it, with no room at all.
\<close>

definition example_objs :: "pref \<Rightarrow> participant" where
  "example_objs p =
     \<lparr>websocket = 10 + p, user_id = int p, username = ''user'', language_mode = ''hi_to_en''\<rparr>"

definition example_world :: "pref list \<Rightarrow> ws list \<Rightarrow> world" where
  "example_world ps dead =
     \<lparr>rooms = [''ABCD-1234'' \<mapsto> ps], objs = example_objs, next_ref = 3,
      broken = (\<lambda>s. s \<in> set dead), trace = [], uuid_draws = 0\<rparr>"

definition initial_world :: world where
  "initial_world =
     \<lparr>rooms = Map.empty, objs = example_objs, next_ref = 3,
      broken = (\<lambda>s. False), trace = [], uuid_draws = 0\<rparr>"

text \<open>
  Session \<open>p\<close> of that room in mode \<open>hi_to_en\<close>, and collaborators: the token
  \<open>good\<close> belongs to user 1, the token \<open>odd\<close> decodes to a subject that is no number,
  the room is active with id 7, a chunk of 200 bytes or more is heard as the English
  \<open>hi\<close> with confidence 0.9 and a shorter one has no text; what the translator does and
  whether the commit succeeds are the two parameters.
\<close>

definition example_session :: "pref \<Rightarrow> session" where
  "example_session p =
     \<lparr>s_websocket = 10 + p, s_room_code = ''ABCD-1234'',
      s_user = \<lparr>u_id = int p, u_username = ''user''\<rparr>,
      s_participant = p, s_language_mode = ''hi_to_en''\<rparr>"

definition example_env :: "tr_outcome \<Rightarrow> bool \<Rightarrow> env" where
  "example_env tr commit_ok =
     \<lparr>decode_access_token =
        (\<lambda>t. if t = ''good'' then Some [''sub'' \<mapsto> ClaimInt 1]
             else if t = ''odd'' then Some [''sub'' \<mapsto> ClaimBad]
             else None),
      db_user = (\<lambda>n. if n = 1 then Some \<lparr>u_id = 1, u_username = ''user''\<rparr> else None),
      db_active_room = (\<lambda>r. if r = ''ABCD-1234'' then Some 7 else None),
      db_participant_mode = (\<lambda>n r. None),
      db_room = (\<lambda>r. if r = ''ABCD-1234'' then Some 7 else None),
      db_commit = (\<lambda>m. commit_ok),
      whisper = (\<lambda>b. Some (if length b < 200 then None else Some [104, 105], Some ''en'', 0.9)),
      google_translate = (\<lambda>a b u. tr),
      detect = (\<lambda>u. None),
      edge_save = (\<lambda>u v f. True),
      uuid4_hex = (\<lambda>n. ''00''),
      AUDIO_DIR = ''audio'',
      json_loads = (\<lambda>t. JSONDecodeError)\<rparr>"

definition audio :: "nat \<Rightarrow> message" where
  "audio n = \<lparr>msg_bytes = Some (replicate n 0), msg_text = None\<rparr>"

section \<open>Frame lemmas\<close>

lemma example_heard:
  "transcribe_audio (example_env tr ok) (replicate n 0) =
     (if n < 200 then [] else [104, 105], ''en'', 0.9)"
  by (simp add: transcribe_audio_def example_env_def strip_def isspace_def)

lemma emit_fields [simp]:
  "rooms (emit e w) = rooms w" "objs (emit e w) = objs w" "next_ref (emit e w) = next_ref w"
  "broken (emit e w) = broken w" "uuid_draws (emit e w) = uuid_draws w"
  "trace (emit e w) = trace w @ [e]"
  by (simp_all add: emit_def)

lemma sessions_emit [simp]: "sessions (emit e w) r = sessions w r"
  by (simp add: sessions_def)

lemma attempt_cong: "broken w1 = broken w \<Longrightarrow> objs w1 = objs w \<Longrightarrow> attempt w1 = attempt w"
  by (auto simp: attempt_def fun_eq_iff)

lemma is_send_attempt [simp]: "is_send (attempt w data p)"
  by (simp add: attempt_def)

lemma events_since_append:
  "trace w' = trace w @ evs \<Longrightarrow> events_since w w' = evs"
  by (simp add: events_since_def)

section \<open>The registry operations in closed form\<close>

lemma broadcast_loop_eq:
  "broadcast_loop w data ex ps acc =
     (w\<lparr>trace := trace w @ map (attempt w data) (filter (\<lambda>p. Some p \<noteq> ex) ps)\<rparr>,
      acc @ filter (\<lambda>p. Some p \<noteq> ex \<and> broken w (websocket (objs w p))) ps)"
proof (induction ps arbitrary: w acc)
  case Nil
  show ?case by simp
next
  case (Cons p ps)
  have a: "attempt (emit e w) = attempt w" for e
    by (rule attempt_cong) simp_all
  show ?case
    by (simp add: Cons.IH send_json_def a) (simp add: emit_def attempt_def)
qed

lemma discard_all_eq:
  "rooms w room_code = Some qs \<Longrightarrow>
   discard_all w room_code ds =
     (Inr (), w\<lparr>rooms := (rooms w)(room_code \<mapsto> filter (\<lambda>q. q \<notin> set ds) qs)\<rparr>)"
proof (induction ds arbitrary: w qs)
  case Nil
  then show ?case by (simp add: map_upd_triv)
next
  case (Cons d ds)
  let ?w1 = "room_put w room_code (set_discard d qs)"
  have f: "filter (\<lambda>q. q \<notin> set ds) (removeAll d qs) = filter (\<lambda>q. q \<notin> set (d # ds)) qs"
    by (induction qs) auto
  have r: "rooms ?w1 room_code = Some (removeAll d qs)"
    by (simp add: room_put_def set_discard_def)
  have "discard_all w room_code (d # ds) = discard_all ?w1 room_code ds"
    using Cons.prems by (simp add: room_get_def)
  also have "\<dots> = (Inr (), ?w1\<lparr>rooms := (rooms ?w1)
                 (room_code \<mapsto> filter (\<lambda>q. q \<notin> set ds) (removeAll d qs))\<rparr>)"
    by (rule Cons.IH [OF r])
  also have "\<dots> = (Inr (), w\<lparr>rooms := (rooms w)
                 (room_code \<mapsto> filter (\<lambda>q. q \<notin> set (d # ds)) qs)\<rparr>)"
    unfolding f by (simp add: room_put_def)
  finally show ?case .
qed

lemma broadcast_json_absent:
  "rooms w room_code = None \<Longrightarrow> broadcast_json w room_code data ex = (Inr (), w)"
  by (simp add: broadcast_json_def)

lemma broadcast_json_present:
  assumes "rooms w room_code = Some ps"
  shows "broadcast_json w room_code data ex =
     (Inr (), w\<lparr>trace := trace w @ map (attempt w data) (filter (\<lambda>p. Some p \<noteq> ex) ps),
              rooms := (rooms w)(room_code \<mapsto> pruned w ex ps)\<rparr>)"
proof -
  have f: "filter (\<lambda>q. q \<in> set ps \<longrightarrow> P q) ps = filter P ps" for P
    by (rule filter_cong) auto
  show ?thesis
    using assms
    by (simp add: broadcast_json_def room_get_def broadcast_loop_eq discard_all_eq f pruned_def)
qed

lemma broadcast_json_returns: "fst (broadcast_json w room_code data ex) = Inr ()"
  by (cases "rooms w room_code") (simp_all add: broadcast_json_absent broadcast_json_present)

lemma broadcast_json_fields:
  "objs (snd (broadcast_json w room_code data ex)) = objs w"
  "broken (snd (broadcast_json w room_code data ex)) = broken w"
  "next_ref (snd (broadcast_json w room_code data ex)) = next_ref w"
  "uuid_draws (snd (broadcast_json w room_code data ex)) = uuid_draws w"
  by (cases "rooms w room_code"; simp add: broadcast_json_absent broadcast_json_present)+

lemma broadcast_json_trace:
  "trace (snd (broadcast_json w room_code data ex)) =
     trace w @ map (attempt w data) (filter (\<lambda>p. Some p \<noteq> ex) (sessions w room_code))"
  by (cases "rooms w room_code")
     (simp_all add: broadcast_json_absent broadcast_json_present sessions_def)

lemma broadcast_json_sessions:
  "sessions (snd (broadcast_json w room_code data ex)) r =
     (if r = room_code then pruned w ex (sessions w r) else sessions w r)"
  by (cases "rooms w room_code")
     (simp_all add: broadcast_json_absent broadcast_json_present sessions_def pruned_def)

lemma disconnect_eq:
  "disconnect w room_code p =
     (if rooms w room_code = None then (Inr (), emit (Log INFO ''WS disconnected'') w)
      else (Inl (Exception ''TypeError''), w))"
  by (cases "rooms w room_code")
     (simp_all add: disconnect_def room_get_def hash_participant_def)


lemma disconnect_rooms: "rooms (snd (disconnect w room_code p)) = rooms w"
  by (simp add: disconnect_eq)

lemma send_to_participant_eq:
  "send_to_participant w p data =
     (if broken w (websocket (objs w p))
      then w\<lparr>trace := trace w @ [attempt w data p, Log WARNING ''Failed to send'']\<rparr>
      else w\<lparr>trace := trace w @ [attempt w data p]\<rparr>)"
  by (simp add: send_to_participant_def send_json_def attempt_def emit_def)

section \<open>Nobody joins a room\<close>


text \<open>
  \<open>connect\<close> in closed form. It raises TypeError on every input. What it leaves behind is
  the accepted socket, the Participant object that was built, and an entry for the room:
  the set the room had, or the empty set for a room that had none.
\<close>

lemma connect_eq:
  "connect w sock room_code uid uname mode =
     (Inl (Exception ''TypeError''),
      w\<lparr>trace := trace w @ [Accepted sock],
        objs := (objs w)(next_ref w :=
           \<lparr>websocket = sock, user_id = uid, username = uname, language_mode = mode\<rparr>),
        next_ref := Suc (next_ref w),
        rooms := (rooms w)(room_code \<mapsto> sessions w room_code)\<rparr>)"
proof (cases "rooms w room_code")
  case None
  then show ?thesis
    by (simp add: connect_def Let_def room_get_def room_put_def emit_def hash_participant_def
        sessions_def)
next
  case (Some ps)
  then have "(rooms w)(room_code \<mapsto> ps) = rooms w"
    by (simp add: map_upd_triv)
  with Some show ?thesis
    by (simp add: connect_def Let_def room_get_def room_put_def emit_def hash_participant_def
        sessions_def)
qed

lemma connect_facts:
  "fst (connect w sock room_code uid uname mode) = Inl (Exception ''TypeError'')"
  "sessions (snd (connect w sock room_code uid uname mode)) r = sessions w r"
  "rooms (snd (connect w sock room_code uid uname mode)) room_code =
     Some (sessions w room_code)"
  "trace (snd (connect w sock room_code uid uname mode)) = trace w @ [Accepted sock]"
  "broken (snd (connect w sock room_code uid uname mode)) = broken w"
  "next_ref (snd (connect w sock room_code uid uname mode)) = Suc (next_ref w)"
  by (simp_all add: connect_eq sessions_def)



text \<open>
  The handler in closed form: with a user and an active room it fails in
  \<open>manager.connect\<close>. It never enters its loop, so what a client sends is never read.
\<close>

lemma websocket_meeting_eq:
  "websocket_meeting env w sock room_code token script =
     (case authenticate_ws env token of
        Inl e \<Rightarrow> (Failed e, w)
      | Inr None \<Rightarrow> (Rejected 4001, emit (Closed sock 4001 ''Authentication failed'') w)
      | Inr (Some usr) \<Rightarrow>
         (case db_active_room env room_code of
            None \<Rightarrow> (Rejected 4002, emit (Closed sock 4002 ''Room not found or ended'') w)
          | Some rid \<Rightarrow>
             (Failed (Exception ''TypeError''),
              snd (connect w sock room_code (u_id usr) (u_username usr)
                     (get_participant_mode env (u_id usr) room_code)))))"
  by (simp add: websocket_meeting_def connect_eq Let_def split: sum.split option.split)

lemma websocket_meeting_reads_nothing:
  "websocket_meeting env w sock room_code token script =
   websocket_meeting env w sock room_code token []"
  by (simp add: websocket_meeting_eq)

lemma websocket_meeting_sessions:
  "sessions (snd (websocket_meeting env w sock room_code token script)) r = sessions w r"
  by (simp add: websocket_meeting_eq connect_facts split: sum.split option.split)

section \<open>Registry removal\<close>

text \<open>
  C6 against the code. Removal is \<open>set.discard\<close> of the Participant, which hashes it:
  whenever the room has an entry, \<open>disconnect\<close> raises TypeError and leaves the registry
  as it found it, whether or not the session is in the set; only for a room with no entry
  does it return, after its log line. Every call of \<open>connect\<close> leaves an entry for its
  room, so the removal of a session from the room it tried to join raises, and the entry,
  with the set it held, stays: no room's entry is ever deleted.
\<close>

theorem disconnect_raises:
  "disconnect w room_code p =
     (if rooms w room_code = None then (Inr (), emit (Log INFO ''WS disconnected'') w)
      else (Inl (Exception ''TypeError''), w)) \<and>
   disconnect (snd (connect w sock room_code uid uname mode)) room_code p =
     (Inl (Exception ''TypeError''), snd (connect w sock room_code uid uname mode)) \<and>
   rooms (snd (disconnect (snd (connect w sock room_code uid uname mode)) room_code p)) room_code =
     Some (sessions w room_code)"
  by (simp add: disconnect_eq connect_facts)

text \<open>
  On the initial registry: a client's \<open>connect\<close> to the room fails and leaves the empty
  set behind. The Participant it built (object 3) is not in the room; removing it raises,
  and the room's entry is not deleted.
\<close>

theorem disconnect_raises_witness:
  "rooms initial_world ''ABCD-1234'' = None \<and>
   fst (connect initial_world 15 ''ABCD-1234'' 1 ''user'' ''hi_to_en'') =
     Inl (Exception ''TypeError'') \<and>
   rooms (snd (connect initial_world 15 ''ABCD-1234'' 1 ''user'' ''hi_to_en'')) ''ABCD-1234'' =
     Some [] \<and>
   3 \<notin> set (sessions (snd (connect initial_world 15 ''ABCD-1234'' 1 ''user'' ''hi_to_en''))
             ''ABCD-1234'') \<and>
   fst (disconnect (snd (connect initial_world 15 ''ABCD-1234'' 1 ''user'' ''hi_to_en''))
          ''ABCD-1234'' 3) = Inl (Exception ''TypeError'') \<and>
   rooms (snd (disconnect (snd (connect initial_world 15 ''ABCD-1234'' 1 ''user'' ''hi_to_en''))
                 ''ABCD-1234'' 3)) ''ABCD-1234'' = Some []"
proof -
  have s: "sessions initial_world ''ABCD-1234'' = []"
    and r: "rooms initial_world ''ABCD-1234'' = None"
    by (simp_all add: sessions_def initial_world_def)
  note t = disconnect_raises [of initial_world "''ABCD-1234''" 3 15 1 "''user''" "''hi_to_en''"]
  from t s r show ?thesis
    by (simp add: connect_facts)
qed

section \<open>Broadcast fan-out\<close>

lemma length_filter_others:
  "distinct ps \<Longrightarrow> ex \<in> set ps \<Longrightarrow> length (filter (\<lambda>p. p \<noteq> ex) ps) = length ps - 1"
proof -
  assume d: "distinct ps" and m: "ex \<in> set ps"
  have "filter (\<lambda>p. p \<noteq> ex) ps = removeAll ex ps"
    by (induction ps) auto
  also have "\<dots> = remove1 ex ps"
    using d by (simp add: distinct_remove1_removeAll)
  finally show ?thesis
    using m by (simp add: length_remove1)
qed

text \<open>
  What the two loops of \<open>broadcast_json\<close> do with a set that has members: one send for
  each member other than the excluded one, whatever happened to the sends before it, and
  the members whose send raised are out of the set afterwards.
\<close>

lemma broadcast_json_members:
  assumes "rooms w room_code = Some ps" and "distinct ps" and "ex \<in> set ps"
  shows "fst (broadcast_json w room_code data (Some ex)) = Inr ()"
    and "events_since w (snd (broadcast_json w room_code data (Some ex))) =
       map (attempt w data) (filter (\<lambda>p. p \<noteq> ex) ps)"
    and "length (events_since w (snd (broadcast_json w room_code data (Some ex)))) = length ps - 1"
    and "sessions (snd (broadcast_json w room_code data (Some ex))) room_code =
       filter (\<lambda>p. p = ex \<or> \<not> broken w (websocket (objs w p))) ps"
proof -
  let ?w' = "snd (broadcast_json w room_code data (Some ex))"
  have s: "sessions w room_code = ps"
    using assms(1) by (simp add: sessions_def)
  show "fst (broadcast_json w room_code data (Some ex)) = Inr ()"
    by (rule broadcast_json_returns)
  show ev: "events_since w ?w' = map (attempt w data) (filter (\<lambda>p. p \<noteq> ex) ps)"
    by (rule events_since_append) (simp add: broadcast_json_trace s)
  show "length (events_since w ?w') = length ps - 1"
    unfolding ev using assms(2,3) by (simp add: length_filter_others)
  show "sessions ?w' room_code = filter (\<lambda>p. p = ex \<or> \<not> broken w (websocket (objs w p))) ps"
    by (simp add: broadcast_json_sessions s pruned_def)
qed



section \<open>The pipeline stages and the world\<close>

lemma filter_is_send_attempts [simp]:
  "filter is_send (map (attempt w data) ps) = map (attempt w data) ps"
  by (induction ps) simp_all

lemma quietI:
  assumes "rooms w' = rooms w" "objs w' = objs w" "broken w' = broken w"
    "next_ref w' = next_ref w" "trace w' = trace w @ evs" "filter is_send evs = []"
  shows "quiet w w'"
  using assms by (simp add: quiet_def sends_since_def events_since_def)

lemma quiet_refl: "quiet w w"
  by (rule quietI [where evs = "[]"]) simp_all

lemma quiet_sessions: "quiet w w' \<Longrightarrow> sessions w' r = sessions w r"
  by (simp add: quiet_def sessions_def)

lemma quiet_attempt: "quiet w w' \<Longrightarrow> attempt w' = attempt w"
  by (rule attempt_cong) (simp_all add: quiet_def)

lemma quiet_trace:
  assumes "quiet w w'"
  shows "trace w' = trace w @ events_since w w'"
proof -
  have "trace w' = take (length (trace w)) (trace w') @ drop (length (trace w)) (trace w')"
    by simp
  also have "take (length (trace w)) (trace w') = trace w"
    using assms by (simp add: quiet_def)
  finally show ?thesis
    by (simp only: events_since_def)
qed

text \<open>After a quiet step, the sends of what follows are the sends of the whole.\<close>

lemma quiet_then:
  assumes "quiet w w1" and "trace w2 = trace w1 @ evs"
  shows "events_since w w2 = events_since w w1 @ evs"
    and "sends_since w w2 = filter is_send evs"
proof -
  have t: "trace w2 = trace w @ events_since w w1 @ evs"
    using quiet_trace [OF assms(1)] assms(2) by simp
  show e: "events_since w w2 = events_since w w1 @ evs"
    by (rule events_since_append) (rule t)
  have "filter is_send (events_since w w1) = []"
    using assms(1) by (simp add: quiet_def sends_since_def)
  then show "sends_since w w2 = filter is_send evs"
    by (simp add: sends_since_def e)
qed

lemma quiet_trans:
  assumes "quiet w w1" and "quiet w1 w2"
  shows "quiet w w2"
proof -
  have t1: "trace w1 = trace w @ events_since w w1"
    by (rule quiet_trace [OF assms(1)])
  have t2: "trace w2 = trace w1 @ events_since w1 w2"
    by (rule quiet_trace [OF assms(2)])
  have s1: "filter is_send (events_since w w1) = []"
    using assms(1) by (simp add: quiet_def sends_since_def)
  have s2: "filter is_send (events_since w1 w2) = []"
    using assms(2) by (simp add: quiet_def sends_since_def)
  show ?thesis
  proof (rule quietI)
    show "trace w2 = trace w @ (events_since w w1 @ events_since w1 w2)"
      using t1 t2 by simp
    show "filter is_send (events_since w w1 @ events_since w1 w2) = []"
      using s1 s2 by simp
  qed (use assms in \<open>simp_all add: quiet_def\<close>)
qed

lemma translator_call:
  "(if src = ''hi'' \<and> tgt = ''en'' then google_translate env ''hi'' ''en'' u
    else if src = ''en'' \<and> tgt = ''hi'' then google_translate env ''en'' ''hi'' u
    else google_translate env src tgt u) = google_translate env src tgt u"
  by simp

text \<open>\<open>translate_text\<close> on text that is not blank, with the two language fixes spelled out.\<close>

lemma translate_text_eq:
  fixes env :: env and u :: utext and a b :: string
  assumes "strip u \<noteq> []"
  defines "src \<equiv> (if a = ''auto'' then detect_language env u else a)"
  defines "tgt \<equiv> (if src = b then (if src = ''hi'' then ''en'' else ''hi'') else b)"
  shows "translate_text env w u a b =
     (((case google_translate env src tgt u of TrText t \<Rightarrow> t | _ \<Rightarrow> u), src, tgt),
      w\<lparr>trace := trace w @
          [Translated src tgt u,
           Log (case google_translate env src tgt u of TrRaises \<Rightarrow> ERROR | _ \<Rightarrow> INFO)
               (case google_translate env src tgt u of
                  TrRaises \<Rightarrow> ''Translation error'' | _ \<Rightarrow> ''Translation'')]\<rparr>)"
proof -
  have n: "u \<noteq> []"
    using assms(1) by (auto simp: strip_def)
  have "translate_text env w u a b =
     (case google_translate env src tgt u of
        TrRaises \<Rightarrow> ((u, src, tgt),
           emit (Log ERROR ''Translation error'') (emit (Translated src tgt u) w))
      | TrNone \<Rightarrow> ((u, src, tgt), emit (Log INFO ''Translation'') (emit (Translated src tgt u) w))
      | TrText t \<Rightarrow> ((t, src, tgt), emit (Log INFO ''Translation'') (emit (Translated src tgt u) w)))"
    unfolding translate_text_def Let_def src_def [symmetric] tgt_def [symmetric] translator_call
    using assms(1) n by simp
  then show ?thesis
    by (cases "google_translate env src tgt u") (simp_all add: emit_def)
qed

lemma translate_text_quiet: "quiet w (snd (translate_text env w u a b))"
proof (cases "strip u = []")
  case True
  then show ?thesis by (simp add: translate_text_def quiet_refl)
next
  case False
  obtain r evs where "translate_text env w u a b = (r, w\<lparr>trace := trace w @ evs\<rparr>)"
    and "\<exists>x y z l m. evs = [Translated x y z, Log l m]"
    using translate_text_eq [OF False, where env = env and a = a and b = b and w = w] by blast
  then show ?thesis
    by (intro quietI [where evs = evs]) auto
qed

lemma translate_text_uuid: "uuid_draws (snd (translate_text env w u a b)) = uuid_draws w"
proof (cases "strip u = []")
  case True
  then show ?thesis by (simp add: translate_text_def)
next
  case False
  then show ?thesis by (simp add: translate_text_eq)
qed

lemma translate_text_fst:
  "fst (translate_text env w u a b) = fst (translate_text env w0 u a b)"
proof (cases "strip u = []")
  case True
  then show ?thesis by (simp add: translate_text_def)
next
  case False
  then show ?thesis by (simp add: translate_text_eq)
qed

lemma synthesize_speech_quiet: "quiet w (snd (synthesize_speech env w u l))"
proof (cases "u = [] \<or> strip u = []")
  case True
  then show ?thesis by (simp add: synthesize_speech_def quiet_refl)
next
  case False
  let ?voice = "case VOICES l of None \<Rightarrow> ''en-US-AriaNeural'' | Some v \<Rightarrow> v"
  let ?path = "AUDIO_DIR env @ ''/'' @ uuid4_hex env (uuid_draws w) @ ''.mp3''"
  show ?thesis
  proof (cases "edge_save env u ?voice ?path")
    case True
    with False show ?thesis
      by (intro quietI [where evs = "[Synthesized u ?voice, Log INFO ''TTS generated'']"])
         (simp_all add: synthesize_speech_def Let_def)
  next
    case no: False
    with False show ?thesis
      by (intro quietI [where evs = "[Synthesized u ?voice, Log ERROR ''TTS synthesis failed'']"])
         (simp_all add: synthesize_speech_def Let_def)
  qed
qed

lemma synthesize_speech_fst:
  "uuid_draws w = uuid_draws w0 \<Longrightarrow>
   fst (synthesize_speech env w u l) = fst (synthesize_speech env w0 u l)"
  by (simp add: synthesize_speech_def Let_def)

lemma synthesize_speech_event:
  "strip u \<noteq> [] \<Longrightarrow>
   Synthesized u (case VOICES l of None \<Rightarrow> ''en-US-AriaNeural'' | Some v \<Rightarrow> v)
     \<in> set (events_since w (snd (synthesize_speech env w u l)))"
proof -
  assume a: "strip u \<noteq> []"
  then have n: "u \<noteq> []"
    by (auto simp: strip_def)
  show ?thesis
    using a n by (simp add: synthesize_speech_def Let_def events_since_def)
qed

lemma translate_and_synthesize_eq:
  "translate_and_synthesize env w u a b =
     ((fst (fst (translate_text env w u a b)),
       fst (snd (fst (translate_text env w u a b))),
       snd (snd (fst (translate_text env w u a b))),
       fst (synthesize_speech env (snd (translate_text env w u a b))
              (fst (fst (translate_text env w u a b)))
              (snd (snd (fst (translate_text env w u a b)))))),
      snd (synthesize_speech env (snd (translate_text env w u a b))
              (fst (fst (translate_text env w u a b)))
              (snd (snd (fst (translate_text env w u a b))))))"
  by (simp add: translate_and_synthesize_def split: prod.split)

lemma translate_and_synthesize_quiet: "quiet w (snd (translate_and_synthesize env w u a b))"
  unfolding translate_and_synthesize_eq snd_conv
  by (rule quiet_trans [OF translate_text_quiet synthesize_speech_quiet])

lemma translate_and_synthesize_fst:
  assumes "uuid_draws w = uuid_draws w0"
  shows "fst (translate_and_synthesize env w u a b) = fst (translate_and_synthesize env w0 u a b)"
proof -
  have "uuid_draws (snd (translate_text env w u a b)) = uuid_draws (snd (translate_text env w0 u a b))"
    using assms by (simp add: translate_text_uuid)
  then have "fst (synthesize_speech env (snd (translate_text env w u a b)) x y) =
             fst (synthesize_speech env (snd (translate_text env w0 u a b)) x y)" for x y
    by (rule synthesize_speech_fst)
  then show ?thesis
    unfolding translate_and_synthesize_eq fst_conv translate_text_fst [of env w u a b w0]
    by simp
qed


section \<open>Delivery and the binary branch\<close>

lemma save_message_eq:
  "save_message env w room_code uid original translated src tgt url conf =
     (case db_room env room_code of
        None \<Rightarrow> (Inr (), w)
      | Some rid \<Rightarrow>
         if db_commit env (MessageLog rid uid original translated src tgt url conf)
         then (Inr (), w\<lparr>trace := trace w @
                 [Committed (MessageLog rid uid original translated src tgt url conf)]\<rparr>)
         else (Inl (Exception ''commit failed''), w\<lparr>trace := trace w @
                 [CommitFailed (MessageLog rid uid original translated src tgt url conf)]\<rparr>))"
  by (simp add: save_message_def Let_def emit_def split: option.split)

lemma filter_after_broadcast:
  "filter is_send (after_broadcast env s w original translated src tgt url conf) =
     [attempt w (result_data s original translated src tgt url conf) (s_participant s)]"
  by (simp add: after_broadcast_def split: option.split)

lemma deliver_and_save_fst:
  "fst (deliver_and_save env s w original translated src tgt url conf) =
     (case db_room env (s_room_code s) of
        None \<Rightarrow> Inr s
      | Some rid \<Rightarrow>
         if db_commit env (MessageLog rid (u_id (s_user s)) original translated src tgt url conf)
         then Inr s else Inl (Exception ''commit failed''))"
proof -
  obtain w4 where b: "broadcast_json w (s_room_code s)
      (result_data s original translated src tgt url conf) None = (Inr (), w4)"
    using broadcast_json_returns [of w "s_room_code s" _ None]
    by (metis prod.collapse)
  show ?thesis
    by (simp add: deliver_and_save_def b save_message_eq Let_def split: option.split)
qed

lemma deliver_and_save_world:
  defines "sent \<equiv> (\<lambda>env s w original translated src tgt url conf.
     snd (deliver_and_save env s w original translated src tgt url conf))"
  shows "trace (sent env s w original translated src tgt url conf) =
       trace w @ map (attempt w (result_data s original translated src tgt url conf))
                     (sessions w (s_room_code s)) @
       after_broadcast env s w original translated src tgt url conf"
    and "sessions (sent env s w original translated src tgt url conf) r =
       (if r = s_room_code s then pruned w None (sessions w r) else sessions w r)"
    and "objs (sent env s w original translated src tgt url conf) = objs w"
    and "broken (sent env s w original translated src tgt url conf) = broken w"
proof -
  define data where "data = result_data s original translated src tgt url conf"
  define w4 where "w4 = snd (broadcast_json w (s_room_code s) data None)"
  define w5 where "w5 = send_to_participant w4 (s_participant s) data"
  define w6 where "w6 = snd (save_message env w5 (s_room_code s) (u_id (s_user s))
                               original translated src tgt url conf)"
  define warn where "warn = (if broken w (websocket (objs w (s_participant s)))
                then [Log WARNING ''Failed to send''] else [])"
  define saved where "saved = (case db_room env (s_room_code s) of
        None \<Rightarrow> []
      | Some rid \<Rightarrow>
         [if db_commit env (MessageLog rid (u_id (s_user s)) original translated src tgt url conf)
          then Committed (MessageLog rid (u_id (s_user s)) original translated src tgt url conf)
          else CommitFailed (MessageLog rid (u_id (s_user s)) original translated src tgt url conf)])"
  have b: "broadcast_json w (s_room_code s) data None = (Inr (), w4)"
    unfolding w4_def
    using broadcast_json_returns [of w "s_room_code s" data None]
    by (metis prod.collapse)
  have f4: "objs w4 = objs w" "broken w4 = broken w"
    unfolding w4_def by (simp_all add: broadcast_json_fields)
  have a4: "attempt w4 = attempt w"
    by (rule attempt_cong) (simp_all add: f4)
  have t4: "trace w4 = trace w @ map (attempt w data) (sessions w (s_room_code s))"
    unfolding w4_def by (simp add: broadcast_json_trace)
  have s4: "sessions w4 r =
       (if r = s_room_code s then pruned w None (sessions w r) else sessions w r)"
    unfolding w4_def by (simp add: broadcast_json_sessions)
  have t5: "trace w5 = trace w4 @ attempt w data (s_participant s) # warn"
    unfolding w5_def warn_def by (simp add: send_to_participant_eq a4 f4)
  have r5: "rooms w5 = rooms w4" "objs w5 = objs w" "broken w5 = broken w"
    unfolding w5_def by (simp_all add: send_to_participant_eq f4)
  have t6: "trace w6 = trace w5 @ saved"
    unfolding w6_def saved_def by (simp add: save_message_eq split: option.split)
  have r6: "rooms w6 = rooms w5" "objs w6 = objs w5" "broken w6 = broken w5"
    unfolding w6_def by (simp_all add: save_message_eq split: option.split)
  have "deliver_and_save env s w original translated src tgt url conf =
     (case save_message env w5 (s_room_code s) (u_id (s_user s))
                    original translated src tgt url conf of
        (Inl e, w6) \<Rightarrow> (Inl e, w6) | (Inr u, w6) \<Rightarrow> (Inr s, w6))"
    unfolding w5_def
    by (simp add: deliver_and_save_def b [unfolded data_def] Let_def data_def)
  then have w6: "sent env s w original translated src tgt url conf = w6"
    unfolding sent_def w6_def by (simp split: prod.split sum.split)
  have ab: "after_broadcast env s w original translated src tgt url conf =
              attempt w data (s_participant s) # warn @ saved"
    by (simp only: after_broadcast_def data_def warn_def saved_def)
  show "trace (sent env s w original translated src tgt url conf) =
       trace w @ map (attempt w (result_data s original translated src tgt url conf))
                     (sessions w (s_room_code s)) @
       after_broadcast env s w original translated src tgt url conf"
    unfolding w6 ab t6 t5 t4 data_def by simp
  have "sessions w6 r = sessions w4 r"
    by (simp add: sessions_def r6 r5)
  then show "sessions (sent env s w original translated src tgt url conf) r =
       (if r = s_room_code s then pruned w None (sessions w r) else sessions w r)"
    unfolding w6 by (simp only: s4)
  show "objs (sent env s w original translated src tgt url conf) = objs w"
    "broken (sent env s w original translated src tgt url conf) = broken w"
    unfolding w6 by (simp_all only: r6 r5)
qed

text \<open>
  The binary branch on a chunk that passes both filters: a quiet prefix (transcription,
  translation, synthesis), then the delivery of the result built from their outputs.
\<close>

lemma handle_bytes_pipeline:
  assumes "\<not> length b < 100"
    and "transcribe_audio env b = (original, lang, conf)"
    and "strip original \<noteq> []"
    and "resolve_languages (s_language_mode s) lang conf = (slang, tlang)"
    and "fst (translate_and_synthesize env w original slang tlang) = (translated, src, tgt, url)"
  shows "\<exists>w3. quiet w w3 \<and>
           handle_bytes env s w b = deliver_and_save env s w3 original translated src tgt url conf"
proof -
  let ?w1 = "emit (Transcribed b) w"
  let ?w3 = "snd (translate_and_synthesize env ?w1 original slang tlang)"
  have q1: "quiet w ?w1"
    by (rule quietI [where evs = "[Transcribed b]"]) simp_all
  have q3: "quiet w ?w3"
    by (rule quiet_trans [OF q1 translate_and_synthesize_quiet])
  have "fst (translate_and_synthesize env ?w1 original slang tlang) = (translated, src, tgt, url)"
    using translate_and_synthesize_fst [of ?w1 w env original slang tlang] assms(5) by simp
  then obtain w3 where
    w3: "translate_and_synthesize env ?w1 original slang tlang = ((translated, src, tgt, url), w3)"
    by (metis prod.collapse)
  have "w3 = ?w3"
    by (simp add: w3)
  with q3 have q: "quiet w w3"
    by simp
  have "handle_bytes env s w b =
               deliver_and_save env s w3 original translated src tgt url conf"
    using assms(1-4) by (simp add: handle_bytes_def Let_def w3)
  with q show ?thesis
    by blast
qed

lemma handle_bytes_delivery:
  assumes "\<not> length b < 100"
    and "transcribe_audio env b = (original, lang, conf)"
    and "strip original \<noteq> []"
    and "resolve_languages (s_language_mode s) lang conf = (slang, tlang)"
    and "fst (translate_and_synthesize env w original slang tlang) = (translated, src, tgt, url)"
  shows "sends_since w (snd (handle_bytes env s w b)) =
           map (attempt w (result_data s original translated src tgt url conf))
               (sessions w (s_room_code s)) @
           [attempt w (result_data s original translated src tgt url conf) (s_participant s)]"
    and "sessions (snd (handle_bytes env s w b)) r =
           (if r = s_room_code s then pruned w None (sessions w r) else sessions w r)"
    and "fst (handle_bytes env s w b) =
           (case db_room env (s_room_code s) of
              None \<Rightarrow> Inr s
            | Some rid \<Rightarrow>
               if db_commit env
                    (MessageLog rid (u_id (s_user s)) original translated src tgt url conf)
               then Inr s else Inl (Exception ''commit failed''))"
    and "\<exists>pre. filter is_send pre = [] \<and>
           events_since w (snd (handle_bytes env s w b)) =
             pre @ map (attempt w (result_data s original translated src tgt url conf))
                       (sessions w (s_room_code s)) @
             after_broadcast env s w original translated src tgt url conf"
proof -
  let ?data = "result_data s original translated src tgt url conf"
  obtain w3 where q: "quiet w w3"
    and h: "handle_bytes env s w b =
              deliver_and_save env s w3 original translated src tgt url conf"
    using handle_bytes_pipeline [OF assms] by blast
  have a: "attempt w3 = attempt w"
    by (rule quiet_attempt [OF q])
  have b: "broken w3 = broken w" "objs w3 = objs w"
    using q by (simp_all add: quiet_def)
  have ab: "after_broadcast env s w3 original translated src tgt url conf =
            after_broadcast env s w original translated src tgt url conf"
    by (simp add: after_broadcast_def a b)
  have t: "trace (snd (handle_bytes env s w b)) =
       trace w3 @ (map (attempt w ?data) (sessions w (s_room_code s)) @
       after_broadcast env s w original translated src tgt url conf)"
    unfolding h by (simp add: deliver_and_save_world(1) a ab quiet_sessions [OF q])
  show "sends_since w (snd (handle_bytes env s w b)) =
           map (attempt w ?data) (sessions w (s_room_code s)) @
           [attempt w ?data (s_participant s)]"
    unfolding quiet_then(2) [OF q t] by (simp add: filter_after_broadcast)
  show "sessions (snd (handle_bytes env s w b)) r =
           (if r = s_room_code s then pruned w None (sessions w r) else sessions w r)"
    unfolding h
    by (simp add: deliver_and_save_world(2) quiet_sessions [OF q] pruned_def b)
  show "fst (handle_bytes env s w b) =
           (case db_room env (s_room_code s) of
              None \<Rightarrow> Inr s
            | Some rid \<Rightarrow>
               if db_commit env
                    (MessageLog rid (u_id (s_user s)) original translated src tgt url conf)
               then Inr s else Inl (Exception ''commit failed''))"
    unfolding h by (rule deliver_and_save_fst)
  have "filter is_send (events_since w w3) = []"
    using q by (simp add: quiet_def sends_since_def)
  then show "\<exists>pre. filter is_send pre = [] \<and>
           events_since w (snd (handle_bytes env s w b)) =
             pre @ map (attempt w ?data) (sessions w (s_room_code s)) @
             after_broadcast env s w original translated src tgt url conf"
    using quiet_then(1) [OF q t] by blast
qed

section \<open>Segments that do not enter or do not leave the pipeline\<close>

lemma all_dropWhile: "(\<forall>x \<in> set (dropWhile P u). P x) \<longleftrightarrow> (\<forall>x \<in> set u. P x)"
  by (induction u) auto

lemma strip_blank: "strip u = [] \<longleftrightarrow> (\<forall>c \<in> set u. isspace c)"
  by (simp add: strip_def all_dropWhile)

text \<open>
  C8. A binary segment of fewer than 100 bytes is dropped by the loop body before anything
  else happens: the iteration completes without an exception and the world, registry and
  trace included, is the one it started from. So there is no transcription call, no
  broadcast, no database write and nothing sent to the sender.
\<close>

theorem short_audio_discarded:
  assumes "length b < 100"
  shows "handle_message env s w \<lparr>msg_bytes = Some b, msg_text = t\<rparr> = (Inr s, w)"
  using assms by (simp add: handle_message_def handle_bytes_def)

theorem short_audio_discarded_witness:
  "length (replicate 99 (0 :: 8 word)) < 100 \<and>
   handle_message (example_env TrNone True) (example_session 0) (example_world [0, 1] [])
     \<lparr>msg_bytes = Some (replicate 99 0), msg_text = None\<rparr> =
   (Inr (example_session 0), example_world [0, 1] [])"
proof -
  have l: "length (replicate 99 (0 :: 8 word)) < 100"
    by simp
  from short_audio_discarded [OF l] l show ?thesis
    by blast
qed

text \<open>
  C7. When the transcription of a segment that passed the size filter is empty or all
  whitespace, the iteration ends right after the transcription call: the only event added
  is that call, so no translation, no synthesis, no send and no database write happen, and
  the registry and the session are unchanged.
\<close>

theorem blank_transcription_aborts:
  assumes "100 \<le> length b"
    and "transcribe_audio env b = (original, lang, conf)"
    and "\<forall>c \<in> set original. isspace c"
  shows "handle_message env s w \<lparr>msg_bytes = Some b, msg_text = t\<rparr> =
           (Inr s, emit (Transcribed b) w) \<and>
         events_since w (snd (handle_message env s w \<lparr>msg_bytes = Some b, msg_text = t\<rparr>)) =
           [Transcribed b] \<and>
         rooms (snd (handle_message env s w \<lparr>msg_bytes = Some b, msg_text = t\<rparr>)) = rooms w"
proof -
  have "strip original = []"
    using assms(3) by (simp add: strip_blank)
  then have "handle_message env s w \<lparr>msg_bytes = Some b, msg_text = t\<rparr> =
           (Inr s, emit (Transcribed b) w)"
    using assms(1,2) by (simp add: handle_message_def handle_bytes_def Let_def)
  then show ?thesis
    by (simp add: events_since_def)
qed

text \<open>
  The theorem on a chunk of 100 bytes for which Whisper returns no text, and on one for which
  it returns two spaces.
\<close>

theorem blank_transcription_aborts_witness:
  "100 \<le> length (replicate 100 (0 :: 8 word)) \<and>
   transcribe_audio (example_env TrNone True) (replicate 100 0) = ([], ''en'', 0.9) \<and>
   events_since (example_world [0, 1] [])
     (snd (handle_message (example_env TrNone True) (example_session 0) (example_world [0, 1] [])
        \<lparr>msg_bytes = Some (replicate 100 0), msg_text = None\<rparr>)) =
     [Transcribed (replicate 100 0)] \<and>
   isspace 32 \<and>
   events_since (example_world [0, 1] [])
     (snd (handle_message
        ((example_env TrNone True)\<lparr>whisper := (\<lambda>b. Some (Some [32, 32], Some ''en'', 0.9))\<rparr>)
        (example_session 0) (example_world [0, 1] [])
        \<lparr>msg_bytes = Some (replicate 100 0), msg_text = None\<rparr>)) =
     [Transcribed (replicate 100 0)]"
proof -
  have l: "100 \<le> length (replicate 100 (0 :: 8 word))"
    by simp
  have t: "transcribe_audio (example_env TrNone True) (replicate 100 0) = ([], ''en'', 0.9)"
    by (simp add: example_heard)
  have e: "\<forall>c \<in> set ([] :: utext). isspace c"
    by simp
  have sp: "isspace 32"
    by (simp add: isspace_def)
  have t2: "transcribe_audio
              ((example_env TrNone True)\<lparr>whisper := (\<lambda>b. Some (Some [32, 32], Some ''en'', 0.9))\<rparr>)
              (replicate 100 0) = ([], ''en'', 0.9)"
    by (simp add: transcribe_audio_def strip_def sp)
  have e2: "\<forall>c \<in> set ([] :: utext). isspace c"
    by simp
  from blank_transcription_aborts [OF l t e] blank_transcription_aborts [OF l t2 e2] l t sp
  show ?thesis
    by blast
qed

section \<open>Connections that are turned away\<close>

text \<open>
  A connection whose token yields no user is closed with code 4001, and one whose token
  yields a user but whose room code finds no active room is closed with code 4002. In both
  cases the close is the only thing the handler does, and the registry is the one it found.
\<close>

lemma turned_away:
  "(authenticate_ws env token = Inr None \<longrightarrow>
      websocket_meeting env w sock room_code token script =
        (Rejected 4001, emit (Closed sock 4001 ''Authentication failed'') w)) \<and>
   (authenticate_ws env token = Inr (Some usr) \<and> db_active_room env room_code = None \<longrightarrow>
      websocket_meeting env w sock room_code token script =
        (Rejected 4002, emit (Closed sock 4002 ''Room not found or ended'') w))"
  by (simp add: websocket_meeting_eq)

lemma authenticate_ws_None:
  "authenticate_ws env token = Inr None \<longleftrightarrow>
     decode_access_token env token = None \<or>
     (\<exists>payload. decode_access_token env token = Some payload \<and>
        (payload ''sub'' = None \<or>
         (\<exists>n. payload ''sub'' = Some (ClaimInt n) \<and> db_user env n = None)))"
  by (auto simp: authenticate_ws_def split: option.splits claim.splits)

text \<open>
  C9 against the code. A token that decodes to a payload whose \<open>sub\<close> is not the text of
  an integer resolves to no identity, but \<open>_authenticate_ws\<close> does not return None for
  it: \<open>int(user_id)\<close> raises ValueError, nothing in the handler catches it, and the
  handler is left by that exception with the world exactly as it found it. So the socket
  is never closed with code 4001 or with any other code, though no registry entry is
  created either.
\<close>

theorem unparsable_subject_escapes:
  assumes "decode_access_token env token = Some payload"
    and "payload ''sub'' = Some ClaimBad"
  shows "authenticate_ws env token = Inl (Exception ''ValueError'') \<and>
         websocket_meeting env w sock room_code token script =
           (Failed (Exception ''ValueError''), w) \<and>
         events_since w (snd (websocket_meeting env w sock room_code token script)) = []"
proof -
  have a: "authenticate_ws env token = Inl (Exception ''ValueError'')"
    using assms by (simp add: authenticate_ws_def)
  then have "websocket_meeting env w sock room_code token script =
           (Failed (Exception ''ValueError''), w)"
    by (simp add: websocket_meeting_eq)
  with a show ?thesis
    by (simp add: events_since_def)
qed

text \<open>
  The theorem on the token \<open>odd\<close>, presented for the active room on the initial registry:
  the handler raises, no close is sent, and the registry still has no room.
\<close>

theorem unparsable_subject_escapes_witness:
  "decode_access_token (example_env TrNone True) ''odd'' = Some [''sub'' \<mapsto> ClaimBad] \<and>
   [''sub'' \<mapsto> ClaimBad] ''sub'' = Some ClaimBad \<and>
   websocket_meeting (example_env TrNone True) initial_world 15 ''ABCD-1234'' ''odd''
       [Received (audio 200)] =
     (Failed (Exception ''ValueError''), initial_world) \<and>
   trace initial_world = [] \<and>
   rooms initial_world ''ABCD-1234'' = None"
proof -
  have d: "decode_access_token (example_env TrNone True) ''odd'' = Some [''sub'' \<mapsto> ClaimBad]"
    by (simp add: example_env_def)
  have c: "[''sub'' \<mapsto> ClaimBad] ''sub'' = Some ClaimBad"
    by simp
  have i: "trace initial_world = []" "rooms initial_world ''ABCD-1234'' = None"
    by (simp_all add: initial_world_def)
  from unparsable_subject_escapes [OF d c, of initial_world 15 "''ABCD-1234''"
      "[Received (audio 200)]"] d c i
  show ?thesis
    by blast
qed

section \<open>Language resolution and the translation fallback\<close>

lemma translate_and_synthesize_fields:
  assumes "strip u \<noteq> []"
    and "fst (translate_and_synthesize env w u a b) = (translated, src, tgt, url)"
  shows "src = (if a = ''auto'' then detect_language env u else a)"
    and "tgt = (if src = b then (if src = ''hi'' then ''en'' else ''hi'') else b)"
    and "translated = (case google_translate env src tgt u of TrText t \<Rightarrow> t | _ \<Rightarrow> u)"
    and "url = fst (synthesize_speech env w translated tgt)"
proof -
  let ?src = "if a = ''auto'' then detect_language env u else a"
  let ?tgt = "if ?src = b then (if ?src = ''hi'' then ''en'' else ''hi'') else b"
  let ?out = "case google_translate env ?src ?tgt u of TrText t \<Rightarrow> t | _ \<Rightarrow> u"
  have t: "fst (translate_text env w u a b) = (?out, ?src, ?tgt)"
    by (simp add: translate_text_eq [OF assms(1)])
  have "fst (translate_and_synthesize env w u a b) =
          (?out, ?src, ?tgt,
           fst (synthesize_speech env (snd (translate_text env w u a b)) ?out ?tgt))"
    unfolding translate_and_synthesize_eq fst_conv t by simp
  also have "fst (synthesize_speech env (snd (translate_text env w u a b)) ?out ?tgt) =
             fst (synthesize_speech env w ?out ?tgt)"
    by (rule synthesize_speech_fst) (rule translate_text_uuid)
  finally have e: "(translated, src, tgt, url) =
                     (?out, ?src, ?tgt, fst (synthesize_speech env w ?out ?tgt))"
    using assms(2) by simp
  from e show "src = ?src"
    by simp
  from e show "tgt = (if src = b then (if src = ''hi'' then ''en'' else ''hi'') else b)"
    by simp
  from e show "translated = (case google_translate env src tgt u of TrText t \<Rightarrow> t | _ \<Rightarrow> u)"
    by simp
  from e show "url = fst (synthesize_speech env w translated tgt)"
    by simp
qed

text \<open>
  C3. For a segment that passes both filters and is transcribed with confidence above 0.5,
  the source language the handler passes on is the detected one, whatever the mode says.
  The result that is sent to the room and to the speaker carries that language as
  \<open>source_language\<close> (a detected \<open>auto\<close> is resolved by the text detector first), and
  its \<open>target_language\<close> is the mode's target unless that equals the source, in which
  case it is flipped. With mode \<open>hi_to_en\<close> and detected \<open>en\<close> the result has source
  \<open>en\<close> and target \<open>hi\<close>.
\<close>

theorem detected_language_overrides:
  assumes "100 \<le> length b"
    and "transcribe_audio env b = (original, lang, conf)"
    and "strip original \<noteq> []"
    and "conf > 0.5"
  shows "fst (resolve_languages (s_language_mode s) lang conf) = lang \<and>
    (\<exists>translated src tgt url.
       sends_since w (snd (handle_message env s w \<lparr>msg_bytes = Some b, msg_text = t\<rparr>)) =
         map (attempt w (result_data s original translated src tgt url conf))
             (sessions w (s_room_code s)) @
         [attempt w (result_data s original translated src tgt url conf) (s_participant s)] \<and>
       source_language (result_data s original translated src tgt url conf) = src \<and>
       target_language (result_data s original translated src tgt url conf) = tgt \<and>
       src = (if lang = ''auto'' then detect_language env original else lang) \<and>
       tgt = (if src = snd (resolve_languages (s_language_mode s) lang conf)
              then (if src = ''hi'' then ''en'' else ''hi'')
              else snd (resolve_languages (s_language_mode s) lang conf)) \<and>
       (s_language_mode s = ''hi_to_en'' \<and> lang = ''en'' \<longrightarrow> src = ''en'' \<and> tgt = ''hi''))"
proof -
  obtain slang tlang where r: "resolve_languages (s_language_mode s) lang conf = (slang, tlang)"
    by (cases "resolve_languages (s_language_mode s) lang conf")
  have sl: "slang = lang"
    using r assms(4) by (simp add: resolve_languages_def Let_def split: if_splits)
  have tlang: "s_language_mode s = ''hi_to_en'' \<Longrightarrow> tlang = ''en''"
    using r by (simp add: resolve_languages_def Let_def split: if_splits)
  obtain translated src tgt url where
    f: "fst (translate_and_synthesize env w original slang tlang) = (translated, src, tgt, url)"
    by (metis prod.collapse)
  note fields = translate_and_synthesize_fields [OF assms(3) f]
  have n: "\<not> length b < 100"
    using assms(1) by simp
  have "sends_since w (snd (handle_bytes env s w b)) =
           map (attempt w (result_data s original translated src tgt url conf))
               (sessions w (s_room_code s)) @
           [attempt w (result_data s original translated src tgt url conf) (s_participant s)]"
    by (rule handle_bytes_delivery(1) [OF n assms(2,3) r f])
  then have sends:
    "sends_since w (snd (handle_message env s w \<lparr>msg_bytes = Some b, msg_text = t\<rparr>)) =
       map (attempt w (result_data s original translated src tgt url conf))
           (sessions w (s_room_code s)) @
       [attempt w (result_data s original translated src tgt url conf) (s_participant s)]"
    by (simp add: handle_message_def)
  have src: "src = (if lang = ''auto'' then detect_language env original else lang)"
    using fields(1) sl by simp
  have tgt: "tgt = (if src = snd (resolve_languages (s_language_mode s) lang conf)
              then (if src = ''hi'' then ''en'' else ''hi'')
              else snd (resolve_languages (s_language_mode s) lang conf))"
    using fields(2) r by simp
  have inst: "src = ''en'' \<and> tgt = ''hi''" if "s_language_mode s = ''hi_to_en''" "lang = ''en''"
    using that src fields(2) tlang by simp
  have sel: "source_language (result_data s original translated src tgt url conf) = src"
    "target_language (result_data s original translated src tgt url conf) = tgt"
    by (simp_all add: result_data_def)
  have "fst (resolve_languages (s_language_mode s) lang conf) = lang"
    using r sl by simp
  with sends sel src tgt inst show ?thesis
    by blast
qed


text \<open>
  The theorem for a speaker in mode \<open>hi_to_en\<close> whose 200 bytes are heard as English
  with confidence 0.9: the result goes out with source \<open>en\<close> and target \<open>hi\<close>.
\<close>

theorem detected_language_overrides_witness:
  "100 \<le> length (replicate 200 (0 :: 8 word)) \<and>
   transcribe_audio (example_env (TrText [110]) True) (replicate 200 0) = ([104, 105], ''en'', 0.9) \<and>
   strip [104, 105] \<noteq> [] \<and> (0.9 :: real) > 0.5 \<and>
   s_language_mode (example_session 0) = ''hi_to_en'' \<and>
   (\<exists>translated url.
      sends_since (example_world [0, 1] [])
        (snd (handle_message (example_env (TrText [110]) True) (example_session 0)
                (example_world [0, 1] []) (audio 200))) =
        map (attempt (example_world [0, 1] [])
               (result_data (example_session 0) [104, 105] translated ''en'' ''hi'' url 0.9))
            (sessions (example_world [0, 1] []) (s_room_code (example_session 0))) @
        [attempt (example_world [0, 1] [])
           (result_data (example_session 0) [104, 105] translated ''en'' ''hi'' url 0.9)
           (s_participant (example_session 0))])"
proof -
  have l: "100 \<le> length (replicate 200 (0 :: 8 word))"
    by simp
  have t: "transcribe_audio (example_env (TrText [110]) True) (replicate 200 0) =
             ([104, 105], ''en'', 0.9)"
    by (simp add: example_heard)
  have n: "strip [104, 105] \<noteq> []"
    by (simp add: strip_def isspace_def)
  have c: "(0.9 :: real) > 0.5"
    by simp
  have m: "s_language_mode (example_session 0) = ''hi_to_en''"
    by (simp add: example_session_def)
  from detected_language_overrides [OF l t n c, of "example_session 0" "example_world [0, 1] []" None]
  obtain translated src tgt url where
    s: "sends_since (example_world [0, 1] [])
        (snd (handle_message (example_env (TrText [110]) True) (example_session 0)
                (example_world [0, 1] []) \<lparr>msg_bytes = Some (replicate 200 0), msg_text = None\<rparr>)) =
        map (attempt (example_world [0, 1] [])
               (result_data (example_session 0) [104, 105] translated src tgt url 0.9))
            (sessions (example_world [0, 1] []) (s_room_code (example_session 0))) @
        [attempt (example_world [0, 1] [])
           (result_data (example_session 0) [104, 105] translated src tgt url 0.9)
           (s_participant (example_session 0))]"
    and i: "s_language_mode (example_session 0) = ''hi_to_en'' \<and> ''en'' = ''en'' \<longrightarrow>
            src = ''en'' \<and> tgt = ''hi''"
    by (elim conjE exE)
  from i m have "src = ''en''" and "tgt = ''hi''"
    by simp_all
  with s have "\<exists>translated url.
      sends_since (example_world [0, 1] [])
        (snd (handle_message (example_env (TrText [110]) True) (example_session 0)
                (example_world [0, 1] []) \<lparr>msg_bytes = Some (replicate 200 0), msg_text = None\<rparr>)) =
        map (attempt (example_world [0, 1] [])
               (result_data (example_session 0) [104, 105] translated ''en'' ''hi'' url 0.9))
            (sessions (example_world [0, 1] []) (s_room_code (example_session 0))) @
        [attempt (example_world [0, 1] [])
           (result_data (example_session 0) [104, 105] translated ''en'' ''hi'' url 0.9)
           (s_participant (example_session 0))]"
    by (simp only:) (intro exI, rule refl)
  with l t n c m show ?thesis
    unfolding audio_def by (intro conjI)
qed

text \<open>
  C4. When the translator raises or returns None for the text of a segment that passed
  both filters, the pipeline goes on: the result sent to the room and to the speaker has
  the transcribed text as its \<open>translated_text\<close>, its \<open>audio_url\<close> is what
  \<open>synthesize_speech\<close> returns for that same text in the target language, and the
  synthesis call for that text is in the trace.
\<close>

theorem translation_failure_passes_text_through:
  assumes "100 \<le> length b"
    and "transcribe_audio env b = (original, lang, conf)"
    and "strip original \<noteq> []"
    and "resolve_languages (s_language_mode s) lang conf = (slang, tlang)"
    and "fst (translate_text env w original slang tlang) = (translated, src, tgt)"
    and "google_translate env src tgt original = TrRaises \<or>
         google_translate env src tgt original = TrNone"
  shows "translated = original \<and>
    sends_since w (snd (handle_message env s w \<lparr>msg_bytes = Some b, msg_text = t\<rparr>)) =
      map (attempt w (result_data s original original src tgt
                        (fst (synthesize_speech env w original tgt)) conf))
          (sessions w (s_room_code s)) @
      [attempt w (result_data s original original src tgt
                    (fst (synthesize_speech env w original tgt)) conf) (s_participant s)] \<and>
    translated_text (result_data s original original src tgt
                       (fst (synthesize_speech env w original tgt)) conf) = original \<and>
    audio_url (result_data s original original src tgt
                 (fst (synthesize_speech env w original tgt)) conf) =
      fst (synthesize_speech env w original tgt) \<and>
    Translated src tgt original
      \<in> set (events_since w (snd (handle_message env s w \<lparr>msg_bytes = Some b, msg_text = t\<rparr>))) \<and>
    Synthesized original (case VOICES tgt of None \<Rightarrow> ''en-US-AriaNeural'' | Some v \<Rightarrow> v)
      \<in> set (events_since w (snd (handle_message env s w \<lparr>msg_bytes = Some b, msg_text = t\<rparr>)))"
proof -
  let ?m = "\<lparr>msg_bytes = Some b, msg_text = t\<rparr>"
  let ?src = "if slang = ''auto'' then detect_language env original else slang"
  let ?tgt = "if ?src = tlang then (if ?src = ''hi'' then ''en'' else ''hi'') else tlang"
  let ?url = "fst (synthesize_speech env w original tgt)"
  have tt: "fst (translate_text env w original slang tlang) =
              ((case google_translate env ?src ?tgt original of TrText x \<Rightarrow> x | _ \<Rightarrow> original),
               ?src, ?tgt)"
    by (simp add: translate_text_eq [OF assms(3)])
  then have st: "src = ?src" "tgt = ?tgt"
    using assms(5) by simp_all
  have tr: "translated = (case google_translate env src tgt original of
                            TrText x \<Rightarrow> x | _ \<Rightarrow> original)"
    using tt assms(5) st by simp
  have same: "translated = original"
    using assms(6) by (auto simp: tr)
  have f: "fst (translate_and_synthesize env w original slang tlang) =
             (original, src, tgt, ?url)"
  proof -
    have "fst (synthesize_speech env (snd (translate_text env w original slang tlang))
                 original tgt) = ?url"
      by (rule synthesize_speech_fst) (rule translate_text_uuid)
    then show ?thesis
      unfolding translate_and_synthesize_eq fst_conv assms(5) same by simp
  qed
  have n: "\<not> length b < 100"
    using assms(1) by simp
  have h: "handle_message env s w ?m = handle_bytes env s w b"
    by (simp add: handle_message_def)
  have sends: "sends_since w (snd (handle_message env s w ?m)) =
      map (attempt w (result_data s original original src tgt ?url conf))
          (sessions w (s_room_code s)) @
      [attempt w (result_data s original original src tgt ?url conf) (s_participant s)]"
    unfolding h by (rule handle_bytes_delivery(1) [OF n assms(2,3,4) f])
  have sel: "translated_text (result_data s original original src tgt ?url conf) = original"
    "audio_url (result_data s original original src tgt ?url conf) = ?url"
    by (simp_all add: result_data_def)
  let ?w1 = "emit (Transcribed b) w"
  let ?w2 = "snd (translate_text env ?w1 original slang tlang)"
  let ?w3 = "snd (synthesize_speech env ?w2 original tgt)"
  have f1: "fst (translate_text env ?w1 original slang tlang) = (original, src, tgt)"
    using translate_text_fst [of env ?w1 original slang tlang w] assms(5) same by simp
  have u1: "fst (synthesize_speech env ?w2 original tgt) = ?url"
    by (rule synthesize_speech_fst) (simp add: translate_text_uuid)
  have ts: "translate_and_synthesize env ?w1 original slang tlang =
              ((original, src, tgt, ?url), ?w3)"
    unfolding translate_and_synthesize_eq f1 fst_conv snd_conv u1 by simp
  have hb: "handle_bytes env s w b = deliver_and_save env s ?w3 original original src tgt ?url conf"
    using n assms(2,3,4) by (simp add: handle_bytes_def Let_def ts)
  have q2: "quiet ?w1 ?w2"
    by (rule translate_text_quiet)
  have q3: "quiet ?w2 ?w3"
    by (rule synthesize_speech_quiet)
  have t1: "trace ?w1 = trace w @ [Transcribed b]"
    by simp
  have t2: "trace ?w2 = trace ?w1 @ events_since ?w1 ?w2"
    by (rule quiet_trace [OF q2])
  have t3: "trace ?w3 = trace ?w2 @ events_since ?w2 ?w3"
    by (rule quiet_trace [OF q3])
  have e2: "Translated src tgt original \<in> set (events_since ?w1 ?w2)"
    using st by (simp add: translate_text_eq [OF assms(3)] events_since_def)
  have e3: "Synthesized original (case VOICES tgt of None \<Rightarrow> ''en-US-AriaNeural'' | Some v \<Rightarrow> v)
              \<in> set (events_since ?w2 ?w3)"
    by (rule synthesize_speech_event [OF assms(3)])
  obtain rest where "trace (snd (handle_bytes env s w b)) = trace ?w3 @ rest"
    unfolding hb using deliver_and_save_world(1) by blast
  then have "events_since w (snd (handle_bytes env s w b)) =
               [Transcribed b] @ events_since ?w1 ?w2 @ events_since ?w2 ?w3 @ rest"
    by (intro events_since_append) (simp add: t3 t2)
  then have ev: "Translated src tgt original \<in> set (events_since w (snd (handle_message env s w ?m)))"
    "Synthesized original (case VOICES tgt of None \<Rightarrow> ''en-US-AriaNeural'' | Some v \<Rightarrow> v)
       \<in> set (events_since w (snd (handle_message env s w ?m)))"
    unfolding h using e2 e3 by simp_all
  from same sends sel ev show ?thesis
    by blast
qed

text \<open>
  The theorem for a translator that raises and for one that returns None: the speaker's
  \<open>hi\<close> goes out untranslated, with the audio synthesized from it.
\<close>

theorem translation_failure_passes_text_through_witness:
  "100 \<le> length (replicate 200 (0 :: 8 word)) \<and>
   transcribe_audio (example_env TrRaises True) (replicate 200 0) = ([104, 105], ''en'', 0.9) \<and>
   strip [104, 105] \<noteq> [] \<and>
   resolve_languages (s_language_mode (example_session 0)) ''en'' 0.9 = (''en'', ''en'') \<and>
   fst (translate_text (example_env TrRaises True) (example_world [0, 1] []) [104, 105]
          ''en'' ''en'') = ([104, 105], ''en'', ''hi'') \<and>
   google_translate (example_env TrRaises True) ''en'' ''hi'' [104, 105] = TrRaises \<and>
   google_translate (example_env TrNone True) ''en'' ''hi'' [104, 105] = TrNone \<and>
   sends_since (example_world [0, 1] [])
     (snd (handle_message (example_env TrRaises True) (example_session 0)
             (example_world [0, 1] []) (audio 200))) =
     [Delivered 10 (TranslationResult 0 ''user'' [104, 105] [104, 105] ''en'' ''hi''
                      ''/static/audio/00.mp3'' 0.9),
      Delivered 11 (TranslationResult 0 ''user'' [104, 105] [104, 105] ''en'' ''hi''
                      ''/static/audio/00.mp3'' 0.9),
      Delivered 10 (TranslationResult 0 ''user'' [104, 105] [104, 105] ''en'' ''hi''
                      ''/static/audio/00.mp3'' 0.9)] \<and>
   sends_since (example_world [0, 1] [])
     (snd (handle_message (example_env TrNone True) (example_session 0)
             (example_world [0, 1] []) (audio 200))) =
     [Delivered 10 (TranslationResult 0 ''user'' [104, 105] [104, 105] ''en'' ''hi''
                      ''/static/audio/00.mp3'' 0.9),
      Delivered 11 (TranslationResult 0 ''user'' [104, 105] [104, 105] ''en'' ''hi''
                      ''/static/audio/00.mp3'' 0.9),
      Delivered 10 (TranslationResult 0 ''user'' [104, 105] [104, 105] ''en'' ''hi''
                      ''/static/audio/00.mp3'' 0.9)]"
proof -
  have l: "100 \<le> length (replicate 200 (0 :: 8 word))"
    by simp
  have t: "transcribe_audio (example_env tr True) (replicate 200 0) = ([104, 105], ''en'', 0.9)"
    for tr
    by (simp add: example_heard)
  have n: "strip [104, 105] \<noteq> []"
    by (simp add: strip_def isspace_def)
  have r: "resolve_languages (s_language_mode (example_session 0)) ''en'' 0.9 = (''en'', ''en'')"
    by (simp add: resolve_languages_def example_session_def)
  have g: "google_translate (example_env tr True) a b u = tr" for tr a b u
    by (simp add: example_env_def)
  have tt: "fst (translate_text (example_env tr True) (example_world [0, 1] []) [104, 105]
          ''en'' ''en'') = ([104, 105], ''en'', ''hi'')" if "tr = TrRaises \<or> tr = TrNone" for tr
    using that by (auto simp: translate_text_eq [OF n] g)
  have u: "fst (synthesize_speech (example_env tr True) (example_world [0, 1] []) [104, 105] ''hi'')
             = ''/static/audio/00.mp3''" for tr
    using n
    by (simp add: synthesize_speech_def Let_def example_env_def example_world_def VOICES_def)
  have a: "map (attempt (example_world [0, 1] []) d)
             (sessions (example_world [0, 1] []) (s_room_code (example_session 0))) @
           [attempt (example_world [0, 1] []) d (s_participant (example_session 0))] =
           [Delivered 10 d, Delivered 11 d, Delivered 10 d]" for d
    by (simp add: attempt_def example_world_def example_objs_def example_session_def sessions_def)
  have d: "result_data (example_session 0) [104, 105] [104, 105] ''en'' ''hi''
             ''/static/audio/00.mp3'' 0.9 =
           TranslationResult 0 ''user'' [104, 105] [104, 105] ''en'' ''hi''
             ''/static/audio/00.mp3'' 0.9"
    by (simp add: result_data_def example_session_def)
  have g1: "google_translate (example_env TrRaises True) ''en'' ''hi'' [104, 105] = TrRaises \<or>
            google_translate (example_env TrRaises True) ''en'' ''hi'' [104, 105] = TrNone"
    and g2: "google_translate (example_env TrNone True) ''en'' ''hi'' [104, 105] = TrRaises \<or>
             google_translate (example_env TrNone True) ''en'' ''hi'' [104, 105] = TrNone"
    by (simp_all add: g)
  have tt1: "fst (translate_text (example_env TrRaises True) (example_world [0, 1] []) [104, 105]
          ''en'' ''en'') = ([104, 105], ''en'', ''hi'')"
    by (rule tt) simp
  have tt2: "fst (translate_text (example_env TrNone True) (example_world [0, 1] []) [104, 105]
          ''en'' ''en'') = ([104, 105], ''en'', ''hi'')"
    by (rule tt) simp
  have c1: "sends_since (example_world [0, 1] [])
     (snd (handle_message (example_env TrRaises True) (example_session 0)
             (example_world [0, 1] []) \<lparr>msg_bytes = Some (replicate 200 0), msg_text = None\<rparr>)) =
     [Delivered 10 (TranslationResult 0 ''user'' [104, 105] [104, 105] ''en'' ''hi''
                      ''/static/audio/00.mp3'' 0.9),
      Delivered 11 (TranslationResult 0 ''user'' [104, 105] [104, 105] ''en'' ''hi''
                      ''/static/audio/00.mp3'' 0.9),
      Delivered 10 (TranslationResult 0 ''user'' [104, 105] [104, 105] ''en'' ''hi''
                      ''/static/audio/00.mp3'' 0.9)]"
    using translation_failure_passes_text_through [OF l t n r tt1 g1, where t = None]
    by (simp only: u a d)
  have c2: "sends_since (example_world [0, 1] [])
     (snd (handle_message (example_env TrNone True) (example_session 0)
             (example_world [0, 1] []) \<lparr>msg_bytes = Some (replicate 200 0), msg_text = None\<rparr>)) =
     [Delivered 10 (TranslationResult 0 ''user'' [104, 105] [104, 105] ''en'' ''hi''
                      ''/static/audio/00.mp3'' 0.9),
      Delivered 11 (TranslationResult 0 ''user'' [104, 105] [104, 105] ''en'' ''hi''
                      ''/static/audio/00.mp3'' 0.9),
      Delivered 10 (TranslationResult 0 ''user'' [104, 105] [104, 105] ''en'' ''hi''
                      ''/static/audio/00.mp3'' 0.9)]"
    using translation_failure_passes_text_through [OF l t n r tt2 g2, where t = None]
    by (simp only: u a d)
  from c1 c2 l t [of TrRaises] n r tt1 g [of TrRaises] g [of TrNone]
  show ?thesis
    unfolding audio_def by (intro conjI)
qed

section \<open>The speaker's own copy\<close>





section \<open>Leaving the loop\<close>

text \<open>
  The \<open>finally\<close> block in closed form. When the room has an entry, \<open>disconnect\<close>
  raises and the block is left before the broadcast; when it has none, the block logs and
  the broadcast finds no room. Either way nothing is sent and the registry is untouched.
\<close>

lemma teardown_eq:
  "teardown s w =
     (if rooms w (s_room_code s) = None then (Inr (), emit (Log INFO ''WS disconnected'') w)
      else (Inl (Exception ''TypeError''), w))"
  by (simp add: teardown_def disconnect_eq broadcast_json_def)

lemma teardown_quiet: "quiet w (snd (teardown s w))"
  by (simp add: teardown_eq quiet_refl quietI [where evs = "[Log INFO ''WS disconnected'']"])

lemma handle_bytes_session:
  assumes "fst (handle_bytes env s w b) = Inr s1"
  shows "s1 = s"
proof (cases "length b < 100")
  case True
  with assms show ?thesis
    by (simp add: handle_bytes_def)
next
  case False
  obtain original lang conf where t: "transcribe_audio env b = (original, lang, conf)"
    by (cases "transcribe_audio env b")
  show ?thesis
  proof (cases "strip original = []")
    case True
    with assms False t show ?thesis
      by (simp add: handle_bytes_def Let_def)
  next
    case blank: False
    obtain slang tlang where
      r: "resolve_languages (s_language_mode s) lang conf = (slang, tlang)"
      by (cases "resolve_languages (s_language_mode s) lang conf")
    obtain translated src tgt url where
      f: "fst (translate_and_synthesize env w original slang tlang) = (translated, src, tgt, url)"
      by (metis prod.collapse)
    from handle_bytes_delivery(3) [OF False t blank r f] assms show ?thesis
      by (simp split: option.splits if_splits)
  qed
qed

lemma handle_message_session:
  assumes "handle_message env s w m = (Inr s1, w1)"
  shows "s_room_code s1 = s_room_code s \<and> s_participant s1 = s_participant s \<and>
         s_user s1 = s_user s"
proof (cases "msg_bytes m")
  case (Some b)
  with assms have "fst (handle_bytes env s w b) = Inr s1"
    by (simp add: handle_message_def)
  then have "s1 = s"
    by (rule handle_bytes_session)
  then show ?thesis
    by simp
next
  case None
  with assms show ?thesis
    by (auto simp: handle_message_def handle_text_def Let_def
             split: option.splits json_doc.splits json_val.splits if_splits)
qed

lemma receive_loop_session:
  "receive_loop env s w script = ((r, s1), w1) \<Longrightarrow>
   s_room_code s1 = s_room_code s \<and> s_participant s1 = s_participant s \<and> s_user s1 = s_user s"
proof (induction env s w script rule: receive_loop.induct)
  case (1 env s w)
  then show ?case by simp
next
  case (2 env s w e rs)
  then show ?case by simp
next
  case (3 env s w m rs)
  obtain x w2 where h: "handle_message env s w m = (x, w2)"
    by (cases "handle_message env s w m")
  show ?case
  proof (cases x)
    case (Inl e)
    with 3(2) h show ?thesis by simp
  next
    case (Inr s2)
    with 3(2) h have "receive_loop env s2 w2 rs = ((r, s1), w1)"
      by simp
    with 3(1) [OF h [symmetric, unfolded Inr] refl] handle_message_session [OF h [unfolded Inr]]
    show ?thesis
      by simp
  qed
qed

lemma logged_exit_quiet: "quiet w (logged_exit e w)"
proof (cases e)
  case WebSocketDisconnect
  then show ?thesis
    by (simp add: logged_exit_def quietI [where evs = "[Log INFO ''WS disconnected'']"])
next
  case (Exception x)
  then show ?thesis
    by (simp add: logged_exit_def quietI [where evs = "[Log ERROR ''WS error'']"])
next
  case (BaseException x)
  then show ?thesis
    by (simp add: logged_exit_def quiet_refl)
qed

lemma run_session_exit:
  assumes "receive_loop env s w script = ((Some e, s1), w1)"
  shows "run_session env s w script =
           (if rooms w1 (s_room_code s) = None
            then ((case e of BaseException x \<Rightarrow> Failed e | _ \<Rightarrow> Finished),
                  emit (Log INFO ''WS disconnected'') (logged_exit e w1))
            else (Failed (Exception ''TypeError''), logged_exit e w1))"
    and "quiet w1 (snd (run_session env s w script))"
proof -
  have same: "s_room_code s1 = s_room_code s"
    using receive_loop_session [OF assms] by simp
  have q: "quiet w1 (logged_exit e w1)"
    by (rule logged_exit_quiet)
  then have r: "rooms (logged_exit e w1) = rooms w1"
    by (simp add: quiet_def)
  show "run_session env s w script =
           (if rooms w1 (s_room_code s) = None
            then ((case e of BaseException x \<Rightarrow> Failed e | _ \<Rightarrow> Finished),
                  emit (Log INFO ''WS disconnected'') (logged_exit e w1))
            else (Failed (Exception ''TypeError''), logged_exit e w1))"
    by (simp add: run_session_def assms teardown_eq same r split: exn.split)
  have "snd (run_session env s w script) = snd (teardown s1 (logged_exit e w1))"
    by (simp add: run_session_def assms split: prod.split sum.split exn.split)
  then show "quiet w1 (snd (run_session env s w script))"
    using quiet_trans [OF q teardown_quiet [of "logged_exit e w1" s1]] by simp
qed

lemma run_session_waiting:
  assumes "receive_loop env s w script = ((None, s1), w1)"
  shows "run_session env s w script = (Running s1, w1)"
  by (simp add: run_session_def assms)



section \<open>A failed database write\<close>

text \<open>
  C5 against the code. \<open>_save_message\<close> is awaited inside the loop's \<open>try\<close> with no
  handler of its own. When its commit raises, the result has been sent before (to the
  room's sessions and to the speaker, then the write is tried), but the exception leaves
  the loop body and the loop: the messages that follow are never read, the error is logged
  by the outer handler, and the call ends in the \<open>finally\<close> block, so the session does
  not keep running.
\<close>

theorem failed_save_leaves_loop:
  assumes "100 \<le> length b"
    and "transcribe_audio env b = (original, lang, conf)"
    and "strip original \<noteq> []"
    and "resolve_languages (s_language_mode s) lang conf = (slang, tlang)"
    and "fst (translate_and_synthesize env w original slang tlang) = (translated, src, tgt, url)"
    and "db_room env (s_room_code s) = Some rid"
    and "\<not> db_commit env (MessageLog rid (u_id (s_user s)) original translated src tgt url conf)"
  shows "fst (handle_message env s w \<lparr>msg_bytes = Some b, msg_text = t\<rparr>) =
      Inl (Exception ''commit failed'') \<and>
    receive_loop env s w (Received \<lparr>msg_bytes = Some b, msg_text = t\<rparr> # rest) =
      ((Some (Exception ''commit failed''), s),
       snd (handle_message env s w \<lparr>msg_bytes = Some b, msg_text = t\<rparr>)) \<and>
    run_session env s w (Received \<lparr>msg_bytes = Some b, msg_text = t\<rparr> # rest) =
      (if rooms (snd (handle_message env s w \<lparr>msg_bytes = Some b, msg_text = t\<rparr>))
            (s_room_code s) = None
       then (Finished,
             emit (Log INFO ''WS disconnected'')
               (emit (Log ERROR ''WS error'')
                  (snd (handle_message env s w \<lparr>msg_bytes = Some b, msg_text = t\<rparr>))))
       else (Failed (Exception ''TypeError''),
             emit (Log ERROR ''WS error'')
               (snd (handle_message env s w \<lparr>msg_bytes = Some b, msg_text = t\<rparr>)))) \<and>
    (\<exists>pre. filter is_send pre = [] \<and>
       events_since w (snd (handle_message env s w \<lparr>msg_bytes = Some b, msg_text = t\<rparr>)) =
         pre @
         map (attempt w (result_data s original translated src tgt url conf))
             (sessions w (s_room_code s)) @
         attempt w (result_data s original translated src tgt url conf) (s_participant s) #
         (if broken w (websocket (objs w (s_participant s)))
          then [Log WARNING ''Failed to send''] else []) @
         [CommitFailed (MessageLog rid (u_id (s_user s)) original translated src tgt url conf)])"
proof -
  let ?m = "\<lparr>msg_bytes = Some b, msg_text = t\<rparr>"
  let ?w1 = "snd (handle_message env s w ?m)"
  have n: "\<not> length b < 100"
    using assms(1) by simp
  have hm: "handle_message env s w ?m = handle_bytes env s w b"
    by (simp add: handle_message_def)
  have out: "fst (handle_message env s w ?m) = Inl (Exception ''commit failed'')"
    unfolding hm using handle_bytes_delivery(3) [OF n assms(2-5)] assms(6,7) by simp
  then obtain w1 where h: "handle_message env s w ?m = (Inl (Exception ''commit failed''), w1)"
    by (metis prod.collapse)
  have w1: "w1 = ?w1"
    by (simp add: h)
  have "receive_loop env s w (Received ?m # rest) = ((Some (Exception ''commit failed''), s), w1)"
    by (simp add: h)
  then have loop: "receive_loop env s w (Received ?m # rest) =
      ((Some (Exception ''commit failed''), s), ?w1)"
    by (simp only: w1)
  have run: "run_session env s w (Received ?m # rest) =
      (if rooms ?w1 (s_room_code s) = None
       then (Finished, emit (Log INFO ''WS disconnected'') (emit (Log ERROR ''WS error'') ?w1))
       else (Failed (Exception ''TypeError''), emit (Log ERROR ''WS error'') ?w1))"
    using run_session_exit(1) [OF loop] by (simp add: logged_exit_def)
  have ab: "after_broadcast env s w original translated src tgt url conf =
      attempt w (result_data s original translated src tgt url conf) (s_participant s) #
      (if broken w (websocket (objs w (s_participant s)))
       then [Log WARNING ''Failed to send''] else []) @
      [CommitFailed (MessageLog rid (u_id (s_user s)) original translated src tgt url conf)]"
    using assms(6,7) by (simp add: after_broadcast_def)
  have ev: "\<exists>pre. filter is_send pre = [] \<and>
       events_since w ?w1 =
         pre @
         map (attempt w (result_data s original translated src tgt url conf))
             (sessions w (s_room_code s)) @
         attempt w (result_data s original translated src tgt url conf) (s_participant s) #
         (if broken w (websocket (objs w (s_participant s)))
          then [Log WARNING ''Failed to send''] else []) @
         [CommitFailed (MessageLog rid (u_id (s_user s)) original translated src tgt url conf)]"
    using handle_bytes_delivery(4) [OF n assms(2-5)] unfolding hm ab .
  from out loop run ev show ?thesis
    by (intro conjI)
qed

text \<open>
  The theorem for speaker 0 who sends two chunks while the commit raises, in a room with
  no entry in the registry and in a room whose set is empty. The result of the first
  chunk is sent to socket 10, the failed write follows, the error is logged and the
  handler ends; the second chunk is never read.
\<close>

theorem failed_save_leaves_loop_witness:
  "100 \<le> length (replicate 200 (0 :: 8 word)) \<and>
   transcribe_audio (example_env (TrText [110]) False) (replicate 200 0) =
     ([104, 105], ''en'', 0.9) \<and>
   strip [104, 105] \<noteq> [] \<and>
   db_room (example_env (TrText [110]) False) ''ABCD-1234'' = Some 7 \<and>
   \<not> db_commit (example_env (TrText [110]) False)
       (MessageLog 7 0 [104, 105] [110] ''en'' ''hi'' ''/static/audio/00.mp3'' 0.9) \<and>
   fst (handle_message (example_env (TrText [110]) False) (example_session 0) initial_world
          (audio 200)) = Inl (Exception ''commit failed'') \<and>
   fst (run_session (example_env (TrText [110]) False) (example_session 0) initial_world
          [Received (audio 200), Received (audio 200)]) = Finished \<and>
   events_since initial_world
      (snd (run_session (example_env (TrText [110]) False) (example_session 0) initial_world
              [Received (audio 200), Received (audio 200)])) =
     [Transcribed (replicate 200 0),
      Translated ''en'' ''hi'' [104, 105],
      Log INFO ''Translation'',
      Synthesized [110] ''hi-IN-SwaraNeural'',
      Log INFO ''TTS generated'',
      Delivered 10 (TranslationResult 0 ''user'' [104, 105] [110] ''en'' ''hi''
                      ''/static/audio/00.mp3'' 0.9),
      CommitFailed (MessageLog 7 0 [104, 105] [110] ''en'' ''hi'' ''/static/audio/00.mp3'' 0.9),
      Log ERROR ''WS error'',
      Log INFO ''WS disconnected''] \<and>
   fst (run_session (example_env (TrText [110]) False) (example_session 0) (example_world [] [])
          [Received (audio 200), Received (audio 200)]) = Failed (Exception ''TypeError'') \<and>
   events_since (example_world [] [])
      (snd (run_session (example_env (TrText [110]) False) (example_session 0)
              (example_world [] []) [Received (audio 200), Received (audio 200)])) =
     [Transcribed (replicate 200 0),
      Translated ''en'' ''hi'' [104, 105],
      Log INFO ''Translation'',
      Synthesized [110] ''hi-IN-SwaraNeural'',
      Log INFO ''TTS generated'',
      Delivered 10 (TranslationResult 0 ''user'' [104, 105] [110] ''en'' ''hi''
                      ''/static/audio/00.mp3'' 0.9),
      CommitFailed (MessageLog 7 0 [104, 105] [110] ''en'' ''hi'' ''/static/audio/00.mp3'' 0.9),
      Log ERROR ''WS error'']"
proof -
  let ?env = "example_env (TrText [110]) False"
  let ?s = "example_session 0"
  have l: "100 \<le> length (replicate 200 (0 :: 8 word))"
    by simp
  have t: "transcribe_audio ?env (replicate 200 0) = ([104, 105], ''en'', 0.9)"
    by (simp add: example_heard)
  have n: "strip [104, 105] \<noteq> []"
    by (simp add: strip_def isspace_def)
  have r: "resolve_languages (s_language_mode ?s) ''en'' 0.9 = (''en'', ''en'')"
    by (simp add: resolve_languages_def example_session_def)
  have f: "fst (translate_and_synthesize ?env w [104, 105] ''en'' ''en'') =
             ([110], ''en'', ''hi'', ''/static/audio/00.mp3'')" for w
    by (simp add: translate_and_synthesize_def translate_text_def synthesize_speech_def Let_def
        strip_def isspace_def VOICES_def example_env_def emit_def)
  have sc: "s_room_code ?s = ''ABCD-1234''" and su: "u_id (s_user ?s) = 0"
    by (simp_all add: example_session_def)
  have d: "db_room ?env ''ABCD-1234'' = Some 7"
    by (simp add: example_env_def)
  have c: "\<not> db_commit ?env
       (MessageLog 7 0 [104, 105] [110] ''en'' ''hi'' ''/static/audio/00.mp3'' 0.9)"
    by (simp add: example_env_def)
  have d': "db_room ?env (s_room_code ?s) = Some 7"
    unfolding sc by (rule d)
  have c': "\<not> db_commit ?env
       (MessageLog 7 (u_id (s_user ?s)) [104, 105] [110] ''en'' ''hi'' ''/static/audio/00.mp3'' 0.9)"
    unfolding su by (rule c)
  note t1 = failed_save_leaves_loop [where w = initial_world and t = None
      and rest = "[Received (audio 200)]", OF l t n r f d' c']
  have a: "fst (handle_message ?env ?s initial_world (audio 200)) =
      Inl (Exception ''commit failed'')"
    using t1 unfolding audio_def by blast
  have rest: "fst (run_session ?env ?s initial_world [Received (audio 200), Received (audio 200)]) =
        Finished \<and>
      events_since initial_world
        (snd (run_session ?env ?s initial_world [Received (audio 200), Received (audio 200)])) =
       [Transcribed (replicate 200 0),
        Translated ''en'' ''hi'' [104, 105],
        Log INFO ''Translation'',
        Synthesized [110] ''hi-IN-SwaraNeural'',
        Log INFO ''TTS generated'',
        Delivered 10 (TranslationResult 0 ''user'' [104, 105] [110] ''en'' ''hi''
                        ''/static/audio/00.mp3'' 0.9),
        CommitFailed (MessageLog 7 0 [104, 105] [110] ''en'' ''hi'' ''/static/audio/00.mp3'' 0.9),
        Log ERROR ''WS error'',
        Log INFO ''WS disconnected''] \<and>
      fst (run_session ?env ?s (example_world [] [])
             [Received (audio 200), Received (audio 200)]) = Failed (Exception ''TypeError'') \<and>
      events_since (example_world [] [])
        (snd (run_session ?env ?s (example_world [] [])
                [Received (audio 200), Received (audio 200)])) =
       [Transcribed (replicate 200 0),
        Translated ''en'' ''hi'' [104, 105],
        Log INFO ''Translation'',
        Synthesized [110] ''hi-IN-SwaraNeural'',
        Log INFO ''TTS generated'',
        Delivered 10 (TranslationResult 0 ''user'' [104, 105] [110] ''en'' ''hi''
                        ''/static/audio/00.mp3'' 0.9),
        CommitFailed (MessageLog 7 0 [104, 105] [110] ''en'' ''hi'' ''/static/audio/00.mp3'' 0.9),
        Log ERROR ''WS error'']"
    by (simp add: run_session_def logged_exit_def handle_message_def handle_bytes_def
        transcribe_audio_def translate_and_synthesize_def translate_text_def
        synthesize_speech_def deliver_and_save_def broadcast_json_def send_to_participant_def
        send_json_def save_message_def teardown_def disconnect_def hash_participant_def
        get_participant_list_def roster_entry_def room_get_def room_put_def set_discard_def
        result_data_def resolve_languages_def VOICES_def strip_def isspace_def emit_def
        sessions_def events_since_def example_env_def example_session_def example_world_def
        initial_world_def example_objs_def audio_def Let_def)
  from l t n d c a rest show ?thesis
    by (intro conjI) blast+
qed

section \<open>A whole call\<close>

text \<open>
  A whole call of the handler on the initial registry: user 1 presents a valid token for
  the active room and then sends a chunk and disconnects. The socket is accepted and the
  call fails in \<open>manager.connect\<close>; nothing the client sends is read, nobody is told
  anything, and the room is left in the registry with an empty set.
\<close>

lemma whole_call:
  "websocket_meeting (example_env (TrText [110]) True) initial_world 15 ''ABCD-1234'' ''good''
      [Received (audio 200), ReceiveRaised WebSocketDisconnect] =
     (Failed (Exception ''TypeError''),
      snd (connect initial_world 15 ''ABCD-1234'' 1 ''user'' ''hi_to_en''))"
  "trace (snd (websocket_meeting (example_env (TrText [110]) True) initial_world 15
                 ''ABCD-1234'' ''good''
                 [Received (audio 200), ReceiveRaised WebSocketDisconnect])) = [Accepted 15]"
  "rooms (snd (websocket_meeting (example_env (TrText [110]) True) initial_world 15
                 ''ABCD-1234'' ''good''
                 [Received (audio 200), ReceiveRaised WebSocketDisconnect])) ''ABCD-1234'' =
     Some []"
  by (simp_all add: websocket_meeting_eq authenticate_ws_def get_participant_mode_def
      connect_facts example_env_def initial_world_def sessions_def)


end
